theory Spec2Isabelle
  imports Complex_Main
begin

section \<open>Time values\<close>

text \<open>
  A \<open>time.Time\<close> is modelled by the instant it denotes, in nanoseconds since the Unix
  epoch; comparisons of times in Go are comparisons of instants. A \<open>time.Duration\<close> is an
  \<open>int64\<close> count of nanoseconds.
\<close>

type_synonym Time = int
type_synonym Duration = int

definition Hour :: Duration where
  "Hour = 3600 * 1000000000"

definition minDuration :: Duration where
  "minDuration = - (2 ^ 63)"

definition maxDuration :: Duration where
  "maxDuration = 2 ^ 63 - 1"

text \<open>\<open>t.Sub(u)\<close>: the difference \<open>t - u\<close>, saturated to the range of \<open>int64\<close>.\<close>

definition Sub :: "Time \<Rightarrow> Time \<Rightarrow> Duration" where
  "Sub t u =
     (let d = t - u
      in if d > maxDuration then maxDuration
         else if d < minDuration then minDuration
         else d)"

text \<open>\<open>t.Add(d)\<close>.\<close>

definition Add :: "Time \<Rightarrow> Duration \<Rightarrow> Time" where
  "Add t d = t + d"

text \<open>\<open>d.Seconds()\<close> converted by \<open>int(...)\<close>: whole seconds, truncated towards zero.\<close>

definition Seconds_int :: "Duration \<Rightarrow> int" where
  "Seconds_int d = (if 0 \<le> d then d div 1000000000 else - ((- d) div 1000000000))"


section \<open>Data model (internal/models, internal/storage)\<close>

record User =
  ID :: int
  Username :: string
  PasswordHash :: string
  CreatedAt :: Time

text \<open>A row of the \<open>sessions\<close> table.\<close>

record session_row =
  token :: string
  user_id :: int
  expires_at :: Time
  last_activity :: Time

text \<open>
  Errors as values: \<open>ErrNoRows\<close> is \<open>sql.ErrNoRows\<close>, returned by \<open>Row.Scan\<close> when the
  query selected nothing; \<open>DriverError\<close> is any failure reported by the database
  connection itself.
\<close>

datatype error = ErrNoRows | DriverError string | FormError string

text \<open>
  The part of the database the session code reads and writes. Tables are lists of rows.
\<close>

record DB =
  users :: "User list"
  sessions :: "session_row list"

record SessionInfo =
  User :: User
  LastActivity :: Time
  ExpiresAt :: Time

text \<open>
  Every storage call takes the outcome of the driver for its statement (\<open>None\<close>: the
  statement was executed; \<open>Some e\<close>: the connection failed with \<open>e\<close>) and the reading of
  the clock the statement or the Go code makes.
\<close>

text \<open>\<open>CreateSession\<close>: inserts a row with \<open>last_activity = now\<close>.\<close>

definition CreateSession ::
  "error option \<Rightarrow> Time \<Rightarrow> DB \<Rightarrow> string \<Rightarrow> int \<Rightarrow> Time \<Rightarrow> error option \<times> DB" where
  "CreateSession drv now db tok userID expiresAt =
     (case drv of
        Some e \<Rightarrow> (Some e, db)
      | None \<Rightarrow>
          if tok \<in> token ` set (sessions db) then (Some (DriverError ''UNIQUE constraint failed''), db)
          else (None, db\<lparr>sessions := sessions db @
                  [\<lparr>token = tok, user_id = userID, expires_at = expiresAt, last_activity = now\<rparr>]\<rparr>))"

text \<open>
  The rows of \<open>sessions s JOIN users u ON s.user_id = u.id\<close> that satisfy
  \<open>s.token = ? AND s.expires_at > CURRENT_TIMESTAMP\<close>, with the comparison read on
  instants, as the query is written to make it. The comparison that SQLite executes on the
  stored text is \<open>sqlite_session_join\<close> below. The properties of the middleware take the
  result of validation as given and hold for either reading.
\<close>

definition session_join :: "Time \<Rightarrow> DB \<Rightarrow> string \<Rightarrow> (User \<times> session_row) list" where
  "session_join now db tok =
     concat (map (\<lambda>s. map (\<lambda>u. (u, s)) (filter (\<lambda>u. user_id s = ID u) (users db)))
                 (filter (\<lambda>s. token s = tok \<and> expires_at s > now) (sessions db)))"

text \<open>\<open>ValidateSessionWithInfo\<close>: \<open>QueryRow\<close> takes the first selected row, \<open>Scan\<close> fails
  with \<open>ErrNoRows\<close> when there is none.\<close>

definition ValidateSessionWithInfo ::
  "error option \<Rightarrow> Time \<Rightarrow> DB \<Rightarrow> string \<Rightarrow> error + SessionInfo" where
  "ValidateSessionWithInfo drv now db tok =
     (case drv of
        Some e \<Rightarrow> Inl e
      | None \<Rightarrow>
          (case session_join now db tok of
             [] \<Rightarrow> Inl ErrNoRows
           | (u, s) # _ \<Rightarrow>
               Inr \<lparr>User = u, LastActivity = last_activity s, ExpiresAt = expires_at s\<rparr>))"

definition ValidateSession :: "error option \<Rightarrow> Time \<Rightarrow> DB \<Rightarrow> string \<Rightarrow> error + User" where
  "ValidateSession drv now db tok =
     (case ValidateSessionWithInfo drv now db tok of
        Inl err \<Rightarrow> Inl err
      | Inr info \<Rightarrow> Inr (User info))"

text \<open>\<open>RenewSession\<close>: \<open>UPDATE sessions SET last_activity = ?, expires_at = ? WHERE token = ?\<close>.\<close>

definition RenewSession ::
  "error option \<Rightarrow> Time \<Rightarrow> DB \<Rightarrow> string \<Rightarrow> Time \<Rightarrow> error option \<times> DB" where
  "RenewSession drv now db tok newExpiresAt =
     (case drv of
        Some e \<Rightarrow> (Some e, db)
      | None \<Rightarrow>
          (None, db\<lparr>sessions :=
                   map (\<lambda>s. if token s = tok
                             then s\<lparr>last_activity := now, expires_at := newExpiresAt\<rparr>
                             else s)
                       (sessions db)\<rparr>))"

definition DeleteSession :: "error option \<Rightarrow> DB \<Rightarrow> string \<Rightarrow> error option \<times> DB" where
  "DeleteSession drv db tok =
     (case drv of
        Some e \<Rightarrow> (Some e, db)
      | None \<Rightarrow> (None, db\<lparr>sessions := filter (\<lambda>s. token s \<noteq> tok) (sessions db)\<rparr>))"

definition CleanExpiredSessions :: "error option \<Rightarrow> Time \<Rightarrow> DB \<Rightarrow> error option \<times> DB" where
  "CleanExpiredSessions drv now db =
     (case drv of
        Some e \<Rightarrow> (Some e, db)
      | None \<Rightarrow> (None, db\<lparr>sessions := filter (\<lambda>s. \<not> expires_at s \<le> now) (sessions db)\<rparr>))"

section \<open>The authentication gate (internal/handlers)\<close>

definition SessionCookieName :: string where
  "SessionCookieName = ''session''"

definition SessionDuration :: Duration where
  "SessionDuration = 30 * 24 * Hour"

record Cookie =
  Name :: string
  Value :: string
  Path :: string
  MaxAge :: int
  HttpOnly :: bool
  Secure :: bool
  SameSite :: string

record Handlers =
  secureCookie :: bool

definition clearSessionCookie :: "Handlers \<Rightarrow> Cookie" where
  "clearSessionCookie h =
     \<lparr>Name = SessionCookieName, Value = '''', Path = ''/'', MaxAge = - 1,
      HttpOnly = True, Secure = secureCookie h, SameSite = ''Lax''\<rparr>"

text \<open>
  What the middleware does with a request: it redirects, or it calls the wrapped handler
  with a user stored in the request context under \<open>UserContextKey\<close>.
\<close>

datatype Outcome = Redirect string nat | Next User

text \<open>The storage writes a request issues, in order.\<close>

datatype StorageWrite = RenewSessionCall string Time

record Response =
  set_cookies :: "Cookie list"
  writes :: "StorageWrite list"
  outcome :: Outcome

text \<open>
  The environment of one request: the value of \<open>CURRENT_TIMESTAMP\<close> in the validation
  query, of \<open>time.Now()\<close> in the middleware and of \<open>time.Now()\<close> in \<open>RenewSession\<close>, and
  the driver's outcome for the two statements.
\<close>

record Env =
  sql_now :: Time
  go_now :: Time
  renew_now :: Time
  validate_drv :: "error option"
  renew_drv :: "error option"

text \<open>
  \<open>AuthMiddleware\<close>; the request's cookie is \<open>None\<close> when \<open>r.Cookie\<close> returns an error.
\<close>

definition AuthMiddleware :: "Handlers \<Rightarrow> Env \<Rightarrow> DB \<Rightarrow> string option \<Rightarrow> Response \<times> DB" where
  "AuthMiddleware h env db cookie =
     (case cookie of
        None \<Rightarrow> (\<lparr>set_cookies = [], writes = [], outcome = Redirect ''/login'' 302\<rparr>, db)
      | Some v \<Rightarrow>
          if v = '''' then (\<lparr>set_cookies = [], writes = [], outcome = Redirect ''/login'' 302\<rparr>, db)
          else
            (case ValidateSessionWithInfo (validate_drv env) (sql_now env) db v of
               Inl err \<Rightarrow>
                 (\<lparr>set_cookies = [clearSessionCookie h], writes = [],
                   outcome = Redirect ''/login'' 302\<rparr>, db)
             | Inr sessionInfo \<Rightarrow>
                 (let now = go_now env;
                      timeUntilExpiry = Sub (ExpiresAt sessionInfo) now;
                      halfSessionDuration = SessionDuration div 2
                  in if timeUntilExpiry < halfSessionDuration then
                       (let newExpiresAt = Add now SessionDuration
                        in case RenewSession (renew_drv env) (renew_now env) db v newExpiresAt of
                             (None, db') \<Rightarrow>
                               (\<lparr>set_cookies =
                                   [\<lparr>Name = SessionCookieName, Value = v, Path = ''/'',
                                     MaxAge = Seconds_int SessionDuration, HttpOnly = True,
                                     Secure = secureCookie h, SameSite = ''Lax''\<rparr>],
                                 writes = [RenewSessionCall v newExpiresAt],
                                 outcome = Next (User sessionInfo)\<rparr>, db')
                           | (Some err, db') \<Rightarrow>
                               (\<lparr>set_cookies = [],
                                 writes = [RenewSessionCall v newExpiresAt],
                                 outcome = Next (User sessionInfo)\<rparr>, db'))
                     else
                       (\<lparr>set_cookies = [], writes = [], outcome = Next (User sessionInfo)\<rparr>, db))))"


section \<open>Floating-point amounts\<close>

text \<open>
  A \<open>float64\<close> is modelled by the value it denotes: a real number, one of the two
  infinities, or NaN. Arithmetic on finite values is exact (rounding and overflow are not
  modelled, and the two zeros are one value); the special values follow IEEE 754, so that
  a division by zero is visible in the result as an infinity or a NaN.
\<close>

datatype float64 = Finite real | PosInf | NegInf | NaN

definition fzero :: float64 where
  "fzero = Finite 0"

fun fneg :: "float64 \<Rightarrow> float64" where
  "fneg (Finite a) = Finite (- a)"
| "fneg PosInf = NegInf"
| "fneg NegInf = PosInf"
| "fneg NaN = NaN"

fun fadd :: "float64 \<Rightarrow> float64 \<Rightarrow> float64" where
  "fadd (Finite a) (Finite b) = Finite (a + b)"
| "fadd NaN _ = NaN"
| "fadd _ NaN = NaN"
| "fadd PosInf NegInf = NaN"
| "fadd NegInf PosInf = NaN"
| "fadd PosInf _ = PosInf"
| "fadd NegInf _ = NegInf"
| "fadd _ PosInf = PosInf"
| "fadd _ NegInf = NegInf"

definition fsub :: "float64 \<Rightarrow> float64 \<Rightarrow> float64" where
  "fsub x y = fadd x (fneg y)"

text \<open>The sign of a value that is not NaN: \<open>-1\<close>, \<open>0\<close> or \<open>1\<close>.\<close>

fun fsign :: "float64 \<Rightarrow> int" where
  "fsign (Finite a) = (if a < 0 then - 1 else if a = 0 then 0 else 1)"
| "fsign PosInf = 1"
| "fsign NegInf = - 1"
| "fsign NaN = 0"

fun fmul :: "float64 \<Rightarrow> float64 \<Rightarrow> float64" where
  "fmul (Finite a) (Finite b) = Finite (a * b)"
| "fmul NaN _ = NaN"
| "fmul _ NaN = NaN"
| "fmul x y =
     (if fsign x * fsign y = 0 then NaN
      else if fsign x * fsign y > 0 then PosInf else NegInf)"

fun fdiv :: "float64 \<Rightarrow> float64 \<Rightarrow> float64" where
  "fdiv NaN _ = NaN"
| "fdiv _ NaN = NaN"
| "fdiv (Finite a) (Finite b) =
     (if b = 0 then (if a = 0 then NaN else if a > 0 then PosInf else NegInf)
      else Finite (a / b))"
| "fdiv (Finite a) _ = Finite 0"
| "fdiv x (Finite b) = (if fsign x * (if b < 0 then - 1 else 1) > 0 then PosInf else NegInf)"
| "fdiv _ _ = NaN"

text \<open>\<open>math.Abs\<close>.\<close>

fun fabs :: "float64 \<Rightarrow> float64" where
  "fabs (Finite a) = Finite \<bar>a\<bar>"
| "fabs PosInf = PosInf"
| "fabs NegInf = PosInf"
| "fabs NaN = NaN"

text \<open>\<open>x > y\<close>: false when either side is NaN.\<close>

fun fgt :: "float64 \<Rightarrow> float64 \<Rightarrow> bool" where
  "fgt NaN _ = False"
| "fgt _ NaN = False"
| "fgt (Finite a) (Finite b) = (a > b)"
| "fgt PosInf y = (y \<noteq> PosInf)"
| "fgt x NegInf = (x \<noteq> NegInf)"
| "fgt _ _ = False"

text \<open>\<open>float64(n)\<close> for an integer.\<close>

definition float64_of_int :: "int \<Rightarrow> float64" where
  "float64_of_int n = Finite (of_int n)"

definition is_finite :: "float64 \<Rightarrow> bool" where
  "is_finite x = (case x of Finite _ \<Rightarrow> True | _ \<Rightarrow> False)"


section \<open>Expenses: the table and the form handlers\<close>

text \<open>
  \<open>models.Expense\<close>. Fields that several Go structs share by name carry a prefix here.
\<close>

record Expense =
  e_ID :: int
  e_Amount :: float64
  e_Description :: string
  e_Category :: string
  e_Date :: Time
  e_UserID :: "int option"

text \<open>The zero \<open>time.Time\<close>, January 1 of year 1, 00:00 UTC, and \<open>t.IsZero()\<close>.\<close>

definition zeroTime :: Time where
  "zeroTime = - 62135596800 * 1000000000"

definition IsZero :: "Time \<Rightarrow> bool" where
  "IsZero t = (t = zeroTime)"

text \<open>The key that \<open>INTEGER PRIMARY KEY AUTOINCREMENT\<close> gives the next row.\<close>

definition next_id :: "Expense list \<Rightarrow> int" where
  "next_id tbl = fold max (map e_ID tbl) 0 + 1"

text \<open>
  \<open>(db *DB) CreateExpense\<close>, on the \<open>expenses\<close> table. The statement names no
  \<open>user_id\<close>, so the column is \<open>NULL\<close>.
\<close>

definition DB_CreateExpense ::
  "error option \<Rightarrow> Time \<Rightarrow> Expense list \<Rightarrow> float64 \<Rightarrow> string \<Rightarrow> string \<Rightarrow> Time
     \<Rightarrow> error option \<times> Expense list" where
  "DB_CreateExpense drv now tbl amount description category date0 =
     (let date = (if IsZero date0 then now else date0)
      in case drv of
           Some e \<Rightarrow> (Some e, tbl)
         | None \<Rightarrow>
             (None, tbl @ [\<lparr>e_ID = next_id tbl, e_Amount = amount, e_Description = description,
                             e_Category = category, e_Date = date, e_UserID = None\<rparr>]))"

text \<open>\<open>(db *DB) GetExpense\<close>.\<close>

definition DB_GetExpense :: "error option \<Rightarrow> Expense list \<Rightarrow> int \<Rightarrow> error + Expense" where
  "DB_GetExpense drv tbl i =
     (case drv of
        Some e \<Rightarrow> Inl e
      | None \<Rightarrow>
          (case filter (\<lambda>e. e_ID e = i) tbl of
             [] \<Rightarrow> Inl ErrNoRows
           | e # _ \<Rightarrow> Inr (e\<lparr>e_UserID := None\<rparr>)))"

text \<open>\<open>(db *DB) UpdateExpense\<close>: overwrites four columns of the rows with the given id.\<close>

definition DB_UpdateExpense ::
  "error option \<Rightarrow> Expense list \<Rightarrow> Expense \<Rightarrow> error option \<times> Expense list" where
  "DB_UpdateExpense drv tbl e =
     (case drv of
        Some err \<Rightarrow> (Some err, tbl)
      | None \<Rightarrow>
          (None, map (\<lambda>row. if e_ID row = e_ID e
                             then row\<lparr>e_Amount := e_Amount e, e_Description := e_Description e,
                                      e_Category := e_Category e, e_Date := e_Date e\<rparr>
                             else row) tbl))"

text \<open>
  A request as the form handlers see it: the result of \<open>r.ParseForm()\<close> and the function
  \<open>r.FormValue\<close>, which gives the empty string for a field that is absent.
\<close>

record Request =
  ParseForm :: "error option"
  FormValue :: "string \<Rightarrow> string"

text \<open>
  \<open>parseForm\<close>. The library functions \<open>strconv.ParseFloat\<close> (value and error) and
  \<open>time.Parse\<close> (layout, text) are parameters. \<open>category\<close> is a named result that no
  statement assigns, so the function returns its zero value, the empty string.
\<close>

definition parseForm ::
  "(string \<Rightarrow> float64 \<times> error option) \<Rightarrow> (string \<Rightarrow> string \<Rightarrow> error + Time) \<Rightarrow> Request
     \<Rightarrow> error + (float64 \<times> string \<times> string \<times> Time)" where
  "parseForm ParseFloat time_Parse r =
     (case ParseForm r of
        Some err \<Rightarrow> Inl err
      | None \<Rightarrow>
          (let category = '''';
               amount = fst (ParseFloat (FormValue r ''amount''));
               desc0 = FormValue r ''description'';
               desc = (if desc0 = '''' then ''Expense'' else desc0);
               dateStr = FormValue r ''date''
           in if dateStr = '''' then Inl (FormError ''date is required'')
              else (case time_Parse ''2006-01-02T15:04'' dateStr of
                      Inl err \<Rightarrow> Inl err
                    | Inr date \<Rightarrow> Inr (amount, desc, category, date))))"

text \<open>What a form handler answers: an error status, or the \<open>HX-Location\<close> header.\<close>

datatype FormResult = BadRequest error | InternalServerError | HXLocation string

definition expenses_location :: string where
  "expenses_location = ''{\"path\":\"/expenses\", \"target\":\"#content\"}''"

text \<open>\<open>(h *Handlers) CreateExpense\<close>.\<close>

definition Handlers_CreateExpense ::
  "(string \<Rightarrow> float64 \<times> error option) \<Rightarrow> (string \<Rightarrow> string \<Rightarrow> error + Time)
     \<Rightarrow> error option \<Rightarrow> Time \<Rightarrow> Expense list \<Rightarrow> Request \<Rightarrow> FormResult \<times> Expense list" where
  "Handlers_CreateExpense ParseFloat time_Parse drv now tbl r =
     (case parseForm ParseFloat time_Parse r of
        Inl err \<Rightarrow> (BadRequest err, tbl)
      | Inr (amount, desc, cat, date) \<Rightarrow>
          (case DB_CreateExpense drv now tbl amount desc cat date of
             (Some err, tbl') \<Rightarrow> (InternalServerError, tbl')
           | (None, tbl') \<Rightarrow> (HXLocation expenses_location, tbl')))"

text \<open>
  \<open>(h *Handlers) UpdateExpense\<close>; \<open>id\<close> is the number read from the path (0 when the
  path value does not parse).
\<close>

definition Handlers_UpdateExpense ::
  "(string \<Rightarrow> float64 \<times> error option) \<Rightarrow> (string \<Rightarrow> string \<Rightarrow> error + Time)
     \<Rightarrow> error option \<Rightarrow> Expense list \<Rightarrow> int \<Rightarrow> Request \<Rightarrow> FormResult \<times> Expense list" where
  "Handlers_UpdateExpense ParseFloat time_Parse drv tbl i r =
     (case parseForm ParseFloat time_Parse r of
        Inl err \<Rightarrow> (BadRequest err, tbl)
      | Inr (amount, desc, cat, date) \<Rightarrow>
          (case DB_UpdateExpense drv tbl
                  \<lparr>e_ID = i, e_Amount = amount, e_Description = desc, e_Category = cat,
                   e_Date = date, e_UserID = None\<rparr> of
             (Some err, tbl') \<Rightarrow> (InternalServerError, tbl')
           | (None, tbl') \<Rightarrow> (HXLocation expenses_location, tbl')))"


section \<open>Calendar arithmetic of package \<open>time\<close>\<close>

text \<open>
  The functions of the Go library that the handlers call on times: \<open>time.Date\<close>,
  \<open>Year\<close>, \<open>Month\<close>, \<open>Day\<close>, \<open>Clock\<close> and \<open>AddDate\<close>, on the proleptic Gregorian
  calendar. A \<open>*time.Location\<close> is modelled by a fixed offset east of UTC, in seconds;
  years are unbounded integers.
\<close>

type_synonym Location = int

definition UTC :: Location where
  "UTC = 0"

definition isLeap :: "int \<Rightarrow> bool" where
  "isLeap year = (year mod 4 = 0 \<and> (year mod 100 \<noteq> 0 \<or> year mod 400 = 0))"

text \<open>\<open>daysIn(m, year)\<close>: the number of days of month \<open>m\<close> (1 to 12).\<close>

definition daysIn :: "int \<Rightarrow> int \<Rightarrow> int" where
  "daysIn m year =
     (if m = 2 then (if isLeap year then 29 else 28)
      else if m = 4 \<or> m = 6 \<or> m = 9 \<or> m = 11 then 30
      else 31)"

text \<open>The days of a year that is not a leap year before month \<open>m\<close> (1 to 13) begins.\<close>

definition daysBefore :: "int \<Rightarrow> int" where
  "daysBefore m =
     (if m \<le> 1 then 0 else if m = 2 then 31 else if m = 3 then 59 else if m = 4 then 90
      else if m = 5 then 120 else if m = 6 then 151 else if m = 7 then 181
      else if m = 8 then 212 else if m = 9 then 243 else if m = 10 then 273
      else if m = 11 then 304 else if m = 12 then 334 else 365)"

definition days_before_month :: "int \<Rightarrow> int \<Rightarrow> int" where
  "days_before_month year m = daysBefore m + (if isLeap year \<and> 3 \<le> m then 1 else 0)"

text \<open>The days from January 1 of year 1 to January 1 of \<open>year\<close>.\<close>

definition days_before_year :: "int \<Rightarrow> int" where
  "days_before_year year =
     365 * (year - 1) + (year - 1) div 4 - (year - 1) div 100 + (year - 1) div 400"

text \<open>January 1, 1970 is day 719162 after January 1 of year 1.\<close>

definition unix_epoch_day :: int where
  "unix_epoch_day = 719162"

text \<open>
  \<open>time.Date(year, month, day, hour, min, sec, nsec, loc)\<close>. A month outside 1 to 12
  overflows into the year; day, hour, minute, second and nanosecond outside their ranges
  carry over, which on the count of days, seconds and nanoseconds is plain addition.
\<close>

definition Date :: "int \<Rightarrow> int \<Rightarrow> int \<Rightarrow> int \<Rightarrow> int \<Rightarrow> int \<Rightarrow> int \<Rightarrow> Location \<Rightarrow> Time" where
  "Date year month day hour minute sec nsec loc =
     (let m0 = month - 1;
          y = year + m0 div 12;
          m = m0 mod 12 + 1;
          d = days_before_year y + days_before_month y m + (day - 1) - unix_epoch_day;
          unix = d * 86400 + hour * 3600 + minute * 60 + sec - loc
      in unix * 1000000000 + nsec)"

text \<open>The year that contains day \<open>z\<close>, counted from January 1 of year 1.\<close>

definition year_of_days :: "int \<Rightarrow> int" where
  "year_of_days z =
     (let y0 = (400 * z) div 146097 + 1
      in if z < days_before_year y0 then y0 - 1
         else if days_before_year (y0 + 1) \<le> z then y0 + 1
         else y0)"

text \<open>The month that contains day \<open>k\<close> of the year (counted from 0).\<close>

definition month_of_yday :: "int \<Rightarrow> int \<Rightarrow> int" where
  "month_of_yday year k =
     (case find (\<lambda>m. k < days_before_month year (m + 1)) [1, 2, 3, 4, 5, 6, 7, 8, 9, 10, 11, 12] of
        Some m \<Rightarrow> m
      | None \<Rightarrow> 12)"

text \<open>Seconds since the Unix epoch on the wall clock of the location, and the day count.\<close>

definition local_seconds :: "Location \<Rightarrow> Time \<Rightarrow> int" where
  "local_seconds loc t = t div 1000000000 + loc"

definition abs_day :: "Location \<Rightarrow> Time \<Rightarrow> int" where
  "abs_day loc t = local_seconds loc t div 86400 + unix_epoch_day"

text \<open>\<open>t.Year()\<close>, \<open>t.Month()\<close>, \<open>t.Day()\<close> and \<open>t.Clock()\<close> for a time in location \<open>loc\<close>.\<close>

definition Year :: "Location \<Rightarrow> Time \<Rightarrow> int" where
  "Year loc t = year_of_days (abs_day loc t)"

definition YearDay0 :: "Location \<Rightarrow> Time \<Rightarrow> int" where
  "YearDay0 loc t = abs_day loc t - days_before_year (Year loc t)"

definition Month :: "Location \<Rightarrow> Time \<Rightarrow> int" where
  "Month loc t = month_of_yday (Year loc t) (YearDay0 loc t)"

definition Day :: "Location \<Rightarrow> Time \<Rightarrow> int" where
  "Day loc t = YearDay0 loc t - days_before_month (Year loc t) (Month loc t) + 1"

definition Clock :: "Location \<Rightarrow> Time \<Rightarrow> int \<times> int \<times> int" where
  "Clock loc t =
     (let s = local_seconds loc t mod 86400
      in (s div 3600, (s mod 3600) div 60, s mod 60))"

definition Nanosecond :: "Time \<Rightarrow> int" where
  "Nanosecond t = t mod 1000000000"

text \<open>\<open>t.AddDate(years, months, days)\<close>.\<close>

definition AddDate :: "Location \<Rightarrow> Time \<Rightarrow> int \<Rightarrow> int \<Rightarrow> int \<Rightarrow> Time" where
  "AddDate loc t years months days =
     (case Clock loc t of
        (hour, minute, sec) \<Rightarrow>
          Date (Year loc t + years) (Month loc t + months) (Day loc t + days)
               hour minute sec (Nanosecond t) loc)"


section \<open>Times as the database stores and compares them\<close>

text \<open>
  The storage layer binds \<open>time.Time\<close> values to its statements as they are. SQLite has
  no type for times: the driver writes the text \<open>t.String()\<close> into the column, in the zone
  the value carries (the server's local zone for values made from \<open>time.Now()\<close>), and
  \<open>CURRENT_TIMESTAMP\<close> is the text \<open>YYYY-MM-DD HH:MM:SS\<close> of the current time in UTC. A
  comparison of the two in a \<open>WHERE\<close> clause is a comparison of texts, byte by byte.
  The texts below are those of years 0 to 9999.
\<close>

record Zone =
  offset :: Location
  abbrev :: string

definition UTC_zone :: Zone where
  "UTC_zone = \<lparr>offset = UTC, abbrev = ''UTC''\<rparr>"

definition digit :: "int \<Rightarrow> char" where
  "digit d = ''0123456789'' ! nat (d mod 10)"

definition pad2 :: "int \<Rightarrow> string" where
  "pad2 n = [digit (n div 10), digit n]"

definition pad4 :: "int \<Rightarrow> string" where
  "pad4 n = [digit (n div 1000), digit (n div 100), digit (n div 10), digit n]"

text \<open>The layout \<open>2006-01-02 15:04:05\<close> of a time in a location.\<close>

definition wall_clock_text :: "Location \<Rightarrow> Time \<Rightarrow> string" where
  "wall_clock_text loc t =
     (case Clock loc t of
        (hour, minute, sec) \<Rightarrow>
          pad4 (Year loc t) @ ''-'' @ pad2 (Month loc t) @ ''-'' @ pad2 (Day loc t) @ '' '' @
          pad2 hour @ '':'' @ pad2 minute @ '':'' @ pad2 sec)"

text \<open>SQLite's \<open>CURRENT_TIMESTAMP\<close> at the instant \<open>now\<close>.\<close>

definition CURRENT_TIMESTAMP :: "Time \<Rightarrow> string" where
  "CURRENT_TIMESTAMP now = wall_clock_text UTC now"

text \<open>The layout \<open>.999999999\<close>: the nanoseconds without trailing zeros, nothing when zero.\<close>

fun trim_zeros :: "string \<Rightarrow> string" where
  "trim_zeros [] = []"
| "trim_zeros (c # cs) =
     (case trim_zeros cs of
        [] \<Rightarrow> (if c = CHR ''0'' then [] else [c])
      | r # rs \<Rightarrow> c # r # rs)"

definition fraction_text :: "Time \<Rightarrow> string" where
  "fraction_text t =
     (let n = Nanosecond t;
          ds = trim_zeros (map (\<lambda>k. digit (n div 10 ^ k)) [8, 7, 6, 5, 4, 3, 2, 1, 0])
      in if ds = [] then [] else ''.'' @ ds)"

text \<open>The layout \<open>-0700 MST\<close>.\<close>

definition zone_text :: "Zone \<Rightarrow> string" where
  "zone_text z =
     (let off = offset z;
          a = \<bar>off\<bar>
      in (if off < 0 then ''-'' else ''+'') @ pad2 (a div 3600) @ pad2 (a mod 3600 div 60) @
         '' '' @ abbrev z)"

text \<open>
  \<open>t.String()\<close> for a time that carries zone \<open>z\<close>: the layout
  \<open>2006-01-02 15:04:05.999999999 -0700 MST\<close>, followed by the monotonic clock reading
  \<open>mreading\<close> (\<open>m=...\<close> after a space, or nothing) when the value has one.
\<close>

definition Time_String :: "Zone \<Rightarrow> string \<Rightarrow> Time \<Rightarrow> string" where
  "Time_String z mreading t =
     wall_clock_text (offset z) t @ fraction_text t @ '' '' @ zone_text z @ mreading"

text \<open>SQLite's order of texts: \<open>memcmp\<close> on the common length, then the shorter first.\<close>

fun text_less :: "string \<Rightarrow> string \<Rightarrow> bool" where
  "text_less [] [] = False"
| "text_less [] (y # ys) = True"
| "text_less (x # xs) [] = False"
| "text_less (x # xs) (y # ys) =
     ((of_char x :: nat) < of_char y \<or> (x = y \<and> text_less xs ys))"

text \<open>
  The validation query as SQLite executes it on rows whose \<open>expires_at\<close> was written by
  the driver: \<open>s.expires_at > CURRENT_TIMESTAMP\<close> on texts.
\<close>

definition sqlite_session_join ::
  "Zone \<Rightarrow> string \<Rightarrow> Time \<Rightarrow> DB \<Rightarrow> string \<Rightarrow> (User \<times> session_row) list" where
  "sqlite_session_join z mreading now db tok =
     concat (map (\<lambda>s. map (\<lambda>u. (u, s)) (filter (\<lambda>u. user_id s = ID u) (users db)))
                 (filter (\<lambda>s. token s = tok \<and>
                              text_less (CURRENT_TIMESTAMP now) (Time_String z mreading (expires_at s)))
                         (sessions db)))"

definition sqlite_ValidateSessionWithInfo ::
  "Zone \<Rightarrow> string \<Rightarrow> error option \<Rightarrow> Time \<Rightarrow> DB \<Rightarrow> string \<Rightarrow> error + SessionInfo" where
  "sqlite_ValidateSessionWithInfo z mreading drv now db tok =
     (case drv of
        Some e \<Rightarrow> Inl e
      | None \<Rightarrow>
          (case sqlite_session_join z mreading now db tok of
             [] \<Rightarrow> Inl ErrNoRows
           | (u, s) # _ \<Rightarrow>
               Inr \<lparr>User = u, LastActivity = last_activity s, ExpiresAt = expires_at s\<rparr>))"


section \<open>The statistics builders (internal/handlers/statistics.go)\<close>

text \<open>\<open>strconv.Itoa\<close>.\<close>

function dec :: "nat \<Rightarrow> string" where
  "dec n = (if n < 10 then [digit (int n)] else dec (n div 10) @ [digit (int n)])"
  by pat_completeness auto
termination
  by (relation "measure id") auto

declare dec.simps [simp del]

definition Itoa :: "int \<Rightarrow> string" where
  "Itoa i = (if i < 0 then ''-'' @ dec (nat (- i)) else dec (nat i))"

text \<open>\<open>time.Month(m).String()\<close>.\<close>

definition Month_String :: "int \<Rightarrow> string" where
  "Month_String m =
     (if 1 \<le> m \<and> m \<le> 12
      then [''January'', ''February'', ''March'', ''April'', ''May'', ''June'', ''July'',
            ''August'', ''September'', ''October'', ''November'', ''December''] ! nat (m - 1)
      else ''%!Month('' @ Itoa m @ '')'')"

text \<open>\<open>strings.Contains\<close>.\<close>

fun Contains :: "string \<Rightarrow> string \<Rightarrow> bool" where
  "Contains [] substr = (substr = [])"
| "Contains (c # cs) substr = (take (length substr) (c # cs) = substr \<or> Contains cs substr)"

text \<open>
  The rows that the aggregate queries of the storage layer return. Their declarations are
  not part of the handlers; the builders read the fields below.
\<close>

record CategoryTotal =
  ct_Category :: string
  ct_Total :: float64
  ct_Count :: int

record DailyTotal =
  dt_Day :: int
  dt_Total :: float64

record MonthlyTotal =
  mt_Month :: int
  mt_Total :: float64

text \<open>
  The reads of the storage layer that the builders call. Each is a function of its
  arguments that gives the value and the error that the Go function returns together.
\<close>

record StatsStore =
  GetCategoryTotalsByMonth :: "int \<Rightarrow> int \<Rightarrow> CategoryTotal list \<times> error option"
  GetExpensesByMonth :: "int \<Rightarrow> int \<Rightarrow> Expense list \<times> error option"
  GetDailyTotalsForMonth :: "int \<Rightarrow> int \<Rightarrow> DailyTotal list \<times> error option"
  GetTotalForPeriod :: "int \<Rightarrow> int \<Rightarrow> float64 \<times> error option"
  GetCategoryTotalsByYear :: "int \<Rightarrow> CategoryTotal list \<times> error option"
  GetExpensesByYear :: "int \<Rightarrow> Expense list \<times> error option"
  GetMonthlyTotalsForYear :: "int \<Rightarrow> MonthlyTotal list \<times> error option"

text \<open>
  The view model and its parts. The fields that only carry presentation (the icon and
  colour of a category, the formatted time of an expense) are left out.
\<close>

record StatsCategoryItem =
  sci_Category :: string
  sci_Total :: float64
  sci_Count :: int
  sci_Percentage :: float64

record ChartPoint =
  cp_Label :: string
  cp_Value :: float64

record ExpenseItem =
  ei_ID :: int
  ei_Amount :: float64
  ei_Description :: string
  ei_Category :: string
  ei_IsIncome :: bool

record StatsViewModel =
  ViewMode :: string
  vm_Year :: int
  vm_Month :: int
  MonthName :: string
  vm_Total :: float64
  PercentageChange :: float64
  IsIncrease :: bool
  HasChange :: bool
  AverageSpending :: float64
  AverageLabel :: string
  Categories :: "StatsCategoryItem list"
  Expenses :: "ExpenseItem list"
  ChartData :: "ChartPoint list"
  MaxChartValue :: float64
  PrevYear :: int
  PrevMonth :: int
  NextYear :: int
  NextMonth :: int
  IsCurrentPeriod :: bool

text \<open>\<open>StatsViewModel{}\<close>: every field has its zero value.\<close>

definition zeroStatsViewModel :: StatsViewModel where
  "zeroStatsViewModel =
     \<lparr>ViewMode = '''', vm_Year = 0, vm_Month = 0, MonthName = '''', vm_Total = Finite 0,
      PercentageChange = Finite 0, IsIncrease = False, HasChange = False,
      AverageSpending = Finite 0, AverageLabel = '''', Categories = [], Expenses = [],
      ChartData = [], MaxChartValue = Finite 0, PrevYear = 0, PrevMonth = 0, NextYear = 0,
      NextMonth = 0, IsCurrentPeriod = False\<rparr>"

text \<open>
  The block \<open>// Calculate percentage change\<close>, the same in both builders: the triple of
  \<open>percentageChange\<close>, \<open>hasChange\<close> and \<open>isIncrease\<close>. Go's variable \<open>total\<close> is
  written \<open>total'\<close>.
\<close>

definition calculatePercentageChange :: "float64 \<Rightarrow> float64 \<Rightarrow> float64 \<times> bool \<times> bool" where
  "calculatePercentageChange total' prevTotal =
     (if fgt prevTotal (Finite 0) then
        (let percentageChange = fmul (fdiv (fsub total' prevTotal) prevTotal) (Finite 100);
             isIncrease = fgt percentageChange (Finite 0)
         in (fabs percentageChange, True, isIncrease))
      else (Finite 0, False, False))"

text \<open>The block \<open>// Prepare category items\<close>, the same in both builders.\<close>

definition categoryItems :: "CategoryTotal list \<Rightarrow> float64 \<Rightarrow> StatsCategoryItem list" where
  "categoryItems categoryTotals total' =
     map (\<lambda>ct. \<lparr>sci_Category = ct_Category ct, sci_Total = ct_Total ct, sci_Count = ct_Count ct,
                 sci_Percentage =
                   (if fgt total' (Finite 0) then fmul (fdiv (ct_Total ct) total') (Finite 100)
                    else Finite 0)\<rparr>)
         categoryTotals"

text \<open>The block \<open>// Prepare expense items\<close>, the same in both builders.\<close>

definition expenseItems :: "Expense list \<Rightarrow> ExpenseItem list" where
  "expenseItems expenses =
     map (\<lambda>e. \<lparr>ei_ID = e_ID e, ei_Amount = e_Amount e, ei_Description = e_Description e,
                ei_Category = e_Category e,
                ei_IsIncome = Contains (e_Description e) ''[Income]''\<rparr>)
         expenses"

text \<open>
  The lookup map of the chart (\<open>dailyMap\<close>, \<open>monthlyMap\<close>) from a list of keys and
  totals, a later entry replacing an earlier one, and the greatest total above zero
  (\<open>maxValue\<close>).
\<close>

definition totalsMap :: "(int \<times> float64) list \<Rightarrow> (int \<rightharpoonup> float64)" where
  "totalsMap totals = fold (\<lambda>(k, v) m. m(k \<mapsto> v)) totals Map.empty"

definition maxValue :: "(int \<times> float64) list \<Rightarrow> float64" where
  "maxValue totals = fold (\<lambda>(k, v) mx. if fgt v mx then v else mx) totals (Finite 0)"

text \<open>Reading a Go map: the zero value for a key that is absent.\<close>

definition lookup0 :: "(int \<rightharpoonup> float64) \<Rightarrow> int \<Rightarrow> float64" where
  "lookup0 m k = (case m k of None \<Rightarrow> Finite 0 | Some v \<Rightarrow> v)"

text \<open>The loop \<open>// Fill in all days\<close> of the month view.\<close>

definition monthChart :: "DailyTotal list \<Rightarrow> int \<Rightarrow> ChartPoint list" where
  "monthChart dailyTotals daysInMonth =
     (let dailyMap = totalsMap (map (\<lambda>dt. (dt_Day dt, dt_Total dt)) dailyTotals)
      in map (\<lambda>day. \<lparr>cp_Label = (if day = 1 \<or> day = 10 \<or> day = 20 \<or> day = daysInMonth
                                     then Itoa day else ''''),
                       cp_Value = lookup0 dailyMap day\<rparr>)
             [1..daysInMonth])"

text \<open>The loop \<open>// Fill in all months\<close> of the year view.\<close>

definition monthNames :: "string list" where
  "monthNames = [''Jan'', ''Feb'', ''Mar'', ''Apr'', ''May'', ''Jun'', ''Jul'', ''Aug'', ''Sep'',
                 ''Oct'', ''Nov'', ''Dec'']"

definition yearChart :: "MonthlyTotal list \<Rightarrow> ChartPoint list" where
  "yearChart monthlyTotals =
     (let monthlyMap = totalsMap (map (\<lambda>mt. (mt_Month mt, mt_Total mt)) monthlyTotals)
      in map (\<lambda>i. \<lparr>cp_Label = monthNames ! nat i, cp_Value = lookup0 monthlyMap (i + 1)\<rparr>)
             [0..11])"

text \<open>
  \<open>buildMonthView\<close>; \<open>now\<close> is a time in location \<open>loc\<close>. Writing to the log is not
  modelled.
\<close>

definition buildMonthView :: "StatsStore \<Rightarrow> int \<Rightarrow> int \<Rightarrow> Location \<Rightarrow> Time \<Rightarrow> StatsViewModel" where
  "buildMonthView db year month loc now =
     (case GetCategoryTotalsByMonth db year month of
        (categoryTotals, Some err) \<Rightarrow> zeroStatsViewModel
      | (categoryTotals, None) \<Rightarrow>
     (case GetExpensesByMonth db year month of
        (expenses, Some err) \<Rightarrow> zeroStatsViewModel
      | (expenses, None) \<Rightarrow>
     (let dailyTotals = fst (GetDailyTotalsForMonth db year month);
          total' = fst (GetTotalForPeriod db year month);
          prevDate = AddDate UTC (Date year month 1 0 0 0 0 UTC) 0 (- 1) 0;
          prevTotal = fst (GetTotalForPeriod db (Year UTC prevDate) (Month UTC prevDate));
          change = calculatePercentageChange total' prevTotal;
          daysInMonth = Day UTC (Date year (month + 1) 0 0 0 0 0 UTC);
          averageSpending = (if daysInMonth > 0 then fdiv total' (float64_of_int daysInMonth)
                             else Finite 0);
          nextDate = AddDate UTC (Date year month 1 0 0 0 0 UTC) 0 1 0
      in \<lparr>ViewMode = ''month'', vm_Year = year, vm_Month = month,
          MonthName = Month_String month, vm_Total = total',
          PercentageChange = fst change, IsIncrease = snd (snd change),
          HasChange = fst (snd change), AverageSpending = averageSpending,
          AverageLabel = ''SPENT/DAY'',
          Categories = categoryItems categoryTotals total',
          Expenses = expenseItems expenses,
          ChartData = monthChart dailyTotals daysInMonth,
          MaxChartValue = maxValue (map (\<lambda>dt. (dt_Day dt, dt_Total dt)) dailyTotals),
          PrevYear = Year UTC prevDate, PrevMonth = Month UTC prevDate,
          NextYear = Year UTC nextDate, NextMonth = Month UTC nextDate,
          IsCurrentPeriod = (year = Year loc now \<and> month = Month loc now)\<rparr>)))"

text \<open>\<open>buildYearView\<close>.\<close>

definition buildYearView :: "StatsStore \<Rightarrow> int \<Rightarrow> Location \<Rightarrow> Time \<Rightarrow> StatsViewModel" where
  "buildYearView db year loc now =
     (case GetCategoryTotalsByYear db year of
        (categoryTotals, Some err) \<Rightarrow> zeroStatsViewModel
      | (categoryTotals, None) \<Rightarrow>
     (case GetExpensesByYear db year of
        (expenses, Some err) \<Rightarrow> zeroStatsViewModel
      | (expenses, None) \<Rightarrow>
     (let monthlyTotals = fst (GetMonthlyTotalsForYear db year);
          total' = fst (GetTotalForPeriod db year 0);
          prevTotal = fst (GetTotalForPeriod db (year - 1) 0);
          change = calculatePercentageChange total' prevTotal;
          averageSpending = fdiv total' (Finite 12)
      in \<lparr>ViewMode = ''year'', vm_Year = year, vm_Month = 0,
          MonthName = Itoa year, vm_Total = total',
          PercentageChange = fst change, IsIncrease = snd (snd change),
          HasChange = fst (snd change), AverageSpending = averageSpending,
          AverageLabel = ''SPENT/MTH'',
          Categories = categoryItems categoryTotals total',
          Expenses = expenseItems expenses,
          ChartData = yearChart monthlyTotals,
          MaxChartValue = maxValue (map (\<lambda>mt. (mt_Month mt, mt_Total mt)) monthlyTotals),
          PrevYear = year - 1, PrevMonth = 0, NextYear = year + 1, NextMonth = 0,
          IsCurrentPeriod = (year = Year loc now)\<rparr>)))"

text \<open>
  \<open>Statistics\<close>: the handler reads \<open>view\<close>, \<open>year\<close> and \<open>month\<close> from the query (the empty
  string when absent, \<open>strconv.Atoi\<close> a parameter), builds the view model and renders it.
  Its only answer is the rendered template.
\<close>

record StatsQuery =
  q_view :: string
  q_year :: string
  q_month :: string

datatype StatsResponse = Render string StatsViewModel | StatusError nat string

definition Statistics ::
  "(string \<Rightarrow> int \<times> error option) \<Rightarrow> StatsStore \<Rightarrow> Location \<Rightarrow> Time \<Rightarrow> StatsQuery \<Rightarrow> StatsResponse" where
  "Statistics Atoi db loc now q =
     (let viewMode = (if q_view q = '''' then ''month'' else q_view q);
          year = (if q_year q \<noteq> '''' \<and> snd (Atoi (q_year q)) = None
                  then fst (Atoi (q_year q)) else Year loc now);
          month = (if q_month q \<noteq> '''' \<and> snd (Atoi (q_month q)) = None
                       \<and> 1 \<le> fst (Atoi (q_month q)) \<and> fst (Atoi (q_month q)) \<le> 12
                   then fst (Atoi (q_month q)) else Month loc now);
          viewModel = (if viewMode = ''year'' then buildYearView db year loc now
                       else buildMonthView db year month loc now)
      in Render ''stats.html'' viewModel)"


section \<open>Listing the expenses of the current month\<close>

text \<open>\<open>ORDER BY ... DESC\<close> for an order \<open>lt\<close> of the sort key: an insertion sort.\<close>

fun insert_desc :: "('a \<Rightarrow> 'a \<Rightarrow> bool) \<Rightarrow> 'a \<Rightarrow> 'a list \<Rightarrow> 'a list" where
  "insert_desc lt x [] = [x]"
| "insert_desc lt x (y # ys) = (if lt x y then y # insert_desc lt x ys else x # y # ys)"

definition order_by_desc :: "('a \<Rightarrow> 'a \<Rightarrow> bool) \<Rightarrow> 'a list \<Rightarrow> 'a list" where
  "order_by_desc lt xs = foldr (insert_desc lt) xs []"

text \<open>
  \<open>startOfMonth\<close> in \<open>ListExpenses\<close>:
  \<open>time.Date(now.Year(), now.Month(), 1, 0, 0, 0, 0, now.Location())\<close>.
\<close>

definition startOfMonth :: "Location \<Rightarrow> Time \<Rightarrow> Time" where
  "startOfMonth loc now = Date (Year loc now) (Month loc now) 1 0 0 0 0 loc"

text \<open>
  \<open>(db *DB) ListExpenses\<close> with \<open>date >= ?\<close> and \<open>ORDER BY date DESC\<close> read on instants,
  as the query is written to make them. \<open>Scan\<close> does not fill \<open>UserID\<close>.
\<close>

definition DB_ListExpenses :: "error option \<Rightarrow> Location \<Rightarrow> Time \<Rightarrow> Expense list \<Rightarrow> error + Expense list" where
  "DB_ListExpenses drv loc now tbl =
     (case drv of
        Some e \<Rightarrow> Inl e
      | None \<Rightarrow>
          Inr (map (\<lambda>e. e\<lparr>e_UserID := None\<rparr>)
                 (order_by_desc (\<lambda>a b. e_Date a < e_Date b)
                    (filter (\<lambda>e. startOfMonth loc now \<le> e_Date e) tbl))))"

text \<open>
  The same query as SQLite executes it. \<open>date_text\<close> gives the text that the driver
  wrote into the \<open>date\<close> column of a row, and the parameter is the text of
  \<open>startOfMonth\<close>, a time in the server's zone \<open>z\<close> without a monotonic clock reading.
\<close>

definition sqlite_ListExpenses ::
  "(Expense \<Rightarrow> string) \<Rightarrow> error option \<Rightarrow> Zone \<Rightarrow> Time \<Rightarrow> Expense list \<Rightarrow> error + Expense list" where
  "sqlite_ListExpenses date_text drv z now tbl =
     (case drv of
        Some e \<Rightarrow> Inl e
      | None \<Rightarrow>
          Inr (map (\<lambda>e. e\<lparr>e_UserID := None\<rparr>)
                 (order_by_desc (\<lambda>a b. text_less (date_text a) (date_text b))
                    (filter (\<lambda>e. \<not> text_less (date_text e)
                                        (Time_String z '''' (startOfMonth (offset z) now)))
                            tbl))))"

text \<open>
  The text of the date of an expense that the create handler stored: \<open>time.Parse\<close> gives
  a time in UTC, which has no monotonic clock reading.
\<close>

definition form_date_text :: "Expense \<Rightarrow> string" where
  "form_date_text e = Time_String UTC_zone '''' (e_Date e)"


section \<open>Auxiliary definitions for stating and instantiating the properties\<close>

text \<open>A database with one user and one session that expires 30 days after the epoch.\<close>

definition example_user :: User where
  "example_user = \<lparr>ID = 1, Username = ''alice'', PasswordHash = ''h'', CreatedAt = 0\<rparr>"

definition example_db :: DB where
  "example_db =
     \<lparr>users = [example_user],
      sessions = [\<lparr>token = ''tok'', user_id = 1, expires_at = 30 * 24 * Hour, last_activity = 0\<rparr>]\<rparr>"

text \<open>A request environment in which every clock reads \<open>t\<close> and validation meets no
  driver failure.\<close>

definition env_at :: "Time \<Rightarrow> error option \<Rightarrow> Env" where
  "env_at t r = \<lparr>sql_now = t, go_now = t, renew_now = t, validate_drv = None, renew_drv = r\<rparr>"


definition example_ParseFloat :: "string \<Rightarrow> float64 \<times> error option" where
  "example_ParseFloat s = (if s = ''12.50'' then (Finite 12.5, None) else (Finite 0, Some (FormError ''invalid syntax'')))"

definition example_time_Parse :: "string \<Rightarrow> string \<Rightarrow> error + Time" where
  "example_time_Parse layout s =
     (if s = ''2024-03-15T12:00'' then Inr (1710504000 * 1000000000) else Inl (FormError ''cannot parse''))"

definition example_form :: Request where
  "example_form =
     \<lparr>ParseForm = None,
      FormValue = (\<lambda>k. if k = ''amount'' then ''12.50''
                        else if k = ''description'' then ''Lunch Test''
                        else if k = ''category'' then ''food''
                        else if k = ''date'' then ''2024-03-15T12:00''
                        else '''')\<rparr>"


definition expiry_instant :: Time where
  "expiry_instant = 1710504000 * 1000000000"

definition late_instant :: Time where
  "late_instant = expiry_instant + 7199 * 1000000000"

definition boundary_db :: DB where
  "boundary_db =
     \<lparr>users = [example_user],
      sessions = [\<lparr>token = ''tok'', user_id = 1, expires_at = expiry_instant, last_activity = 0\<rparr>]\<rparr>"


definition example_store :: StatsStore where
  "example_store =
     \<lparr>GetCategoryTotalsByMonth = (\<lambda>y m.
        ([\<lparr>ct_Category = ''food'', ct_Total = Finite 20, ct_Count = 2\<rparr>,
          \<lparr>ct_Category = ''transport'', ct_Total = Finite 20, ct_Count = 1\<rparr>], None)),
      GetExpensesByMonth = (\<lambda>y m. ([], None)),
      GetDailyTotalsForMonth = (\<lambda>y m.
        ([\<lparr>dt_Day = 2, dt_Total = Finite 25\<rparr>, \<lparr>dt_Day = 29, dt_Total = Finite 15\<rparr>], None)),
      GetTotalForPeriod = (\<lambda>y m.
        if y = 2024 \<and> (m = 2 \<or> m = 0) then (Finite 40, None)
        else if y = 2024 \<and> m = 1 then (Finite 32, None)
        else (Finite 0, None)),
      GetCategoryTotalsByYear = (\<lambda>y.
        ([\<lparr>ct_Category = ''food'', ct_Total = Finite 20, ct_Count = 2\<rparr>,
          \<lparr>ct_Category = ''transport'', ct_Total = Finite 20, ct_Count = 1\<rparr>], None)),
      GetExpensesByYear = (\<lambda>y. ([], None)),
      GetMonthlyTotalsForYear = (\<lambda>y. ([\<lparr>mt_Month = 2, mt_Total = Finite 40\<rparr>], None))\<rparr>"


definition value_of :: "float64 \<Rightarrow> real" where
  "value_of x = (case x of Finite r \<Rightarrow> r | _ \<Rightarrow> 0)"


definition example_Atoi :: "string \<Rightarrow> int \<times> error option" where
  "example_Atoi s =
     (if s = ''2024'' then (2024, None) else if s = ''2'' then (2, None)
      else (0, Some (FormError ''invalid syntax'')))"

definition example_query :: StatsQuery where
  "example_query = \<lparr>q_view = '''', q_year = ''2024'', q_month = ''2''\<rparr>"

definition store_total_fails :: StatsStore where
  "store_total_fails =
     example_store\<lparr>GetTotalForPeriod := (\<lambda>y m. (Finite 0, Some (DriverError ''disk I/O error'')))\<rparr>"

definition store_categories_fail :: StatsStore where
  "store_categories_fail =
     example_store\<lparr>GetCategoryTotalsByMonth := (\<lambda>y m. ([], Some (DriverError ''disk I/O error'')))\<rparr>"


definition CET_zone :: Zone where
  "CET_zone = \<lparr>offset = 3600, abbrev = ''CET''\<rparr>"

definition march_15_noon_CET :: Time where
  "march_15_noon_CET = Date 2024 3 15 12 0 0 0 3600"

definition march_first_expense :: Expense where
  "march_first_expense =
     \<lparr>e_ID = 1, e_Amount = Finite 12.5, e_Description = ''Lunch Test'', e_Category = '''',
      e_Date = Date 2024 3 1 0 0 0 0 UTC, e_UserID = None\<rparr>"

definition month_start_expense :: Expense where
  "month_start_expense =
     \<lparr>e_ID = 2, e_Amount = Finite 3, e_Description = ''Bus'', e_Category = '''',
      e_Date = Date 2024 2 29 23 0 0 0 UTC, e_UserID = None\<rparr>"


section \<open>The session duration\<close>

lemma SessionDuration_value: "SessionDuration = 2592000000000000"
  by (simp add: SessionDuration_def Hour_def)

lemma SessionDuration_seconds: "Seconds_int SessionDuration = 2592000"
  by (simp add: SessionDuration_value Seconds_int_def)

lemma Sub_lt_half: "Sub e n < SessionDuration div 2 \<longleftrightarrow> e - n < SessionDuration div 2"
  by (auto simp: Sub_def Let_def SessionDuration_value maxDuration_def minDuration_def)

section \<open>Rolling renewal in the authentication gate\<close>

lemma AuthMiddleware_validated:
  assumes "ValidateSessionWithInfo (validate_drv env) (sql_now env) db tok = Inr info"
    and "tok \<noteq> ''''"
  shows "AuthMiddleware h env db (Some tok) =
     (if ExpiresAt info - go_now env < SessionDuration div 2 then
        (\<lparr>set_cookies =
            (if renew_drv env = None then
              [\<lparr>Name = SessionCookieName, Value = tok, Path = ''/'',
                MaxAge = Seconds_int SessionDuration, HttpOnly = True,
                Secure = secureCookie h, SameSite = ''Lax''\<rparr>] else []),
          writes = [RenewSessionCall tok (go_now env + SessionDuration)],
          outcome = Next (User info)\<rparr>,
         snd (RenewSession (renew_drv env) (renew_now env) db tok (go_now env + SessionDuration)))
      else (\<lparr>set_cookies = [], writes = [], outcome = Next (User info)\<rparr>, db))"
  using assms
  by (simp add: AuthMiddleware_def Let_def Sub_lt_half Add_def RenewSession_def
        split: option.splits)

text \<open>
  Claim C2. For a request whose session validates, the gate issues the renewal write exactly
  when \<open>expiresAt - now < SessionDuration / 2\<close>, with \<open>SessionDuration\<close> equal to 30 days. The
  write is \<open>RenewSession(token, now + SessionDuration)\<close>, and when that call succeeds the
  cookie is set again with the same token and a max-age of 30 days in seconds. When at least
  half of the duration remains nothing is written, no cookie is set and the database is
  unchanged.
\<close>

theorem AuthMiddleware_renews_iff_past_half:
  assumes "ValidateSessionWithInfo (validate_drv env) (sql_now env) db tok = Inr info"
    and "tok \<noteq> ''''"
  shows "SessionDuration = 30 * 24 * 3600 * 1000000000
     \<and> (ExpiresAt info - go_now env < SessionDuration div 2 \<longrightarrow>
          writes (fst (AuthMiddleware h env db (Some tok))) =
            [RenewSessionCall tok (go_now env + SessionDuration)]
        \<and> snd (AuthMiddleware h env db (Some tok)) =
            snd (RenewSession (renew_drv env) (renew_now env) db tok (go_now env + SessionDuration))
        \<and> (renew_drv env = None \<longrightarrow>
             set_cookies (fst (AuthMiddleware h env db (Some tok))) =
               [\<lparr>Name = ''session'', Value = tok, Path = ''/'', MaxAge = 30 * 24 * 3600,
                 HttpOnly = True, Secure = secureCookie h, SameSite = ''Lax''\<rparr>]))
     \<and> (\<not> ExpiresAt info - go_now env < SessionDuration div 2 \<longrightarrow>
          writes (fst (AuthMiddleware h env db (Some tok))) = []
        \<and> set_cookies (fst (AuthMiddleware h env db (Some tok))) = []
        \<and> snd (AuthMiddleware h env db (Some tok)) = db)"
  by (simp add: AuthMiddleware_validated [OF assms] SessionDuration_seconds SessionCookieName_def)
     (simp add: SessionDuration_value)

theorem AuthMiddleware_renews_iff_past_half_witness:
  "writes (fst (AuthMiddleware \<lparr>secureCookie = True\<rparr> (env_at (16 * 24 * Hour) None) example_db (Some ''tok'')))
     = [RenewSessionCall ''tok'' (46 * 24 * Hour)]
   \<and> sessions (snd (AuthMiddleware \<lparr>secureCookie = True\<rparr> (env_at (16 * 24 * Hour) None) example_db (Some ''tok'')))
     = [\<lparr>token = ''tok'', user_id = 1, expires_at = 46 * 24 * Hour, last_activity = 16 * 24 * Hour\<rparr>]
   \<and> set_cookies (fst (AuthMiddleware \<lparr>secureCookie = True\<rparr> (env_at (16 * 24 * Hour) None) example_db (Some ''tok'')))
     = [\<lparr>Name = ''session'', Value = ''tok'', Path = ''/'', MaxAge = 2592000,
         HttpOnly = True, Secure = True, SameSite = ''Lax''\<rparr>]
   \<and> writes (fst (AuthMiddleware \<lparr>secureCookie = True\<rparr> (env_at (14 * 24 * Hour) None) example_db (Some ''tok''))) = []
   \<and> snd (AuthMiddleware \<lparr>secureCookie = True\<rparr> (env_at (14 * 24 * Hour) None) example_db (Some ''tok'')) = example_db"
proof -
  let ?info = "\<lparr>User = example_user, LastActivity = 0, ExpiresAt = 30 * 24 * Hour\<rparr>"
  have v16: "ValidateSessionWithInfo (validate_drv (env_at (16 * 24 * Hour) None))
       (sql_now (env_at (16 * 24 * Hour) None)) example_db ''tok'' = Inr ?info"
    by (simp add: ValidateSessionWithInfo_def session_join_def example_db_def example_user_def
          env_at_def Hour_def)
  have v14: "ValidateSessionWithInfo (validate_drv (env_at (14 * 24 * Hour) None))
       (sql_now (env_at (14 * 24 * Hour) None)) example_db ''tok'' = Inr ?info"
    by (simp add: ValidateSessionWithInfo_def session_join_def example_db_def example_user_def
          env_at_def Hour_def)
  have ne: "''tok'' \<noteq> ''''" by simp
  show ?thesis
    using AuthMiddleware_renews_iff_past_half [OF v16 ne, where h = "\<lparr>secureCookie = True\<rparr>"]
      AuthMiddleware_renews_iff_past_half [OF v14 ne, where h = "\<lparr>secureCookie = True\<rparr>"]
    by (simp add: env_at_def Hour_def RenewSession_def example_db_def SessionDuration_value)
qed

text \<open>
  Claim C10. When the session validated, the renewal is due and \<open>RenewSession\<close> fails, the
  request still reaches the wrapped handler with the validated user in its context; no
  cookie is set, nothing is redirected and the database is unchanged.
\<close>

theorem renewal_failure_is_not_fatal:
  assumes "ValidateSessionWithInfo (validate_drv env) (sql_now env) db tok = Inr info"
    and "tok \<noteq> ''''"
    and "ExpiresAt info - go_now env < SessionDuration div 2"
    and "renew_drv env = Some e"
  shows "AuthMiddleware h env db (Some tok) =
           (\<lparr>set_cookies = [],
             writes = [RenewSessionCall tok (go_now env + SessionDuration)],
             outcome = Next (User info)\<rparr>, db)"
  using assms(3,4)
  by (simp add: AuthMiddleware_validated [OF assms(1,2)] RenewSession_def)

theorem renewal_failure_is_not_fatal_witness:
  "AuthMiddleware \<lparr>secureCookie = True\<rparr> (env_at (16 * 24 * Hour) (Some (DriverError ''database is locked'')))
       example_db (Some ''tok'') =
     (\<lparr>set_cookies = [], writes = [RenewSessionCall ''tok'' (46 * 24 * Hour)],
       outcome = Next example_user\<rparr>, example_db)"
proof -
  let ?env = "env_at (16 * 24 * Hour) (Some (DriverError ''database is locked''))"
  let ?info = "\<lparr>User = example_user, LastActivity = 0, ExpiresAt = 30 * 24 * Hour\<rparr>"
  have v: "ValidateSessionWithInfo (validate_drv ?env) (sql_now ?env) example_db ''tok'' = Inr ?info"
    by (simp add: ValidateSessionWithInfo_def session_join_def example_db_def example_user_def
          env_at_def Hour_def)
  have ne: "''tok'' \<noteq> ''''" by simp
  have half: "ExpiresAt ?info - go_now ?env < SessionDuration div 2"
    by (simp add: env_at_def Hour_def SessionDuration_value)
  have drv: "renew_drv ?env = Some (DriverError ''database is locked'')"
    by (simp add: env_at_def)
  show ?thesis
    using renewal_failure_is_not_fatal [OF v ne half drv, of "\<lparr>secureCookie = True\<rparr>"]
    by (simp add: env_at_def Hour_def SessionDuration_value)
qed


section \<open>Renewal only extends the expiry\<close>









section \<open>The submitted category is ignored\<close>

lemma parseForm_category:
  "parseForm pf tp r = Inr (amount, desc, cat, date) \<Longrightarrow> cat = ''''"
  by (auto simp: parseForm_def Let_def split: option.splits if_splits sum.splits)

lemma parseForm_ignores_category:
  "parseForm pf tp (r\<lparr>FormValue := (FormValue r)(''category'' := c)\<rparr>) = parseForm pf tp r"
  by (simp add: parseForm_def split: option.splits)

lemma updated_row_category:
  fixes tbl :: "Expense list"
  assumes "row \<in> set (map (\<lambda>row. if e_ID row = i
                             then row\<lparr>e_Amount := a, e_Description := d,
                                      e_Category := c, e_Date := t\<rparr>
                             else row) tbl)"
    and "e_ID row = i"
  shows "e_Category row = c"
proof -
  define f :: "Expense \<Rightarrow> Expense"
    where "f = (\<lambda>row. if e_ID row = i
                             then row\<lparr>e_Amount := a, e_Description := d,
                                      e_Category := c, e_Date := t\<rparr>
                             else row)"
  from assms(1) have "row \<in> f ` set tbl"
    unfolding f_def by (simp only: set_map)
  then obtain r0 where r0: "row = f r0" by (rule imageE)
  show ?thesis
  proof (cases "e_ID r0 = i")
    case True
    then show ?thesis by (simp add: r0 f_def)
  next
    case False
    with assms(2) show ?thesis by (simp add: r0 f_def)
  qed
qed

text \<open>
  Claim C3. Whenever the create or the update handler accepts a form and stores it, the
  stored expense has the empty string as its category: the created row, and every row the
  update rewrote. The submitted \<open>category\<close> field has no influence on what either handler
  does, because \<open>parseForm\<close> never reads it. The parsers of the amount and of the date are
  arbitrary.
\<close>

theorem submitted_category_is_ignored:
  "(Handlers_CreateExpense pf tp drv now tbl r = (HXLocation loc, tbl') \<longrightarrow>
      (\<exists>e. tbl' = tbl @ [e] \<and> e_Category e = ''''))
   \<and> (Handlers_UpdateExpense pf tp drv tbl i r = (HXLocation loc, tbl') \<longrightarrow>
      length tbl' = length tbl \<and> (\<forall>e \<in> set tbl'. e_ID e = i \<longrightarrow> e_Category e = ''''))
   \<and> Handlers_CreateExpense pf tp drv now tbl (r\<lparr>FormValue := (FormValue r)(''category'' := c)\<rparr>)
        = Handlers_CreateExpense pf tp drv now tbl r
   \<and> Handlers_UpdateExpense pf tp drv tbl i (r\<lparr>FormValue := (FormValue r)(''category'' := c)\<rparr>)
        = Handlers_UpdateExpense pf tp drv tbl i r"
proof (intro conjI impI)
  assume ok: "Handlers_CreateExpense pf tp drv now tbl r = (HXLocation loc, tbl')"
  show "\<exists>e. tbl' = tbl @ [e] \<and> e_Category e = ''''"
  proof (cases "parseForm pf tp r")
    case (Inl err)
    with ok show ?thesis by (simp add: Handlers_CreateExpense_def)
  next
    case (Inr res)
    obtain amount desc cat date where res: "res = (amount, desc, cat, date)"
      by (cases res) auto
    from Inr res have cat: "cat = ''''" by (simp add: parseForm_category)
    from ok Inr res show ?thesis
      by (cases drv) (auto simp: Handlers_CreateExpense_def DB_CreateExpense_def Let_def cat)
  qed
next
  assume ok: "Handlers_UpdateExpense pf tp drv tbl i r = (HXLocation loc, tbl')"
  show "length tbl' = length tbl"
  proof (cases "parseForm pf tp r")
    case (Inl err)
    with ok show ?thesis by (simp add: Handlers_UpdateExpense_def)
  next
    case (Inr res)
    obtain amount desc cat date where res: "res = (amount, desc, cat, date)"
      by (cases res) auto
    from ok Inr res show ?thesis
      by (cases drv) (auto simp: Handlers_UpdateExpense_def DB_UpdateExpense_def)
  qed
next
  assume ok: "Handlers_UpdateExpense pf tp drv tbl i r = (HXLocation loc, tbl')"
  show "\<forall>e \<in> set tbl'. e_ID e = i \<longrightarrow> e_Category e = ''''"
  proof (cases "parseForm pf tp r")
    case (Inl err)
    with ok show ?thesis by (simp add: Handlers_UpdateExpense_def)
  next
    case (Inr res)
    obtain amount desc cat date where res: "res = (amount, desc, cat, date)"
      by (cases res) auto
    from Inr res have cat: "cat = ''''" by (simp add: parseForm_category)
    show ?thesis
    proof (cases drv)
      case (Some e)
      with ok Inr res show ?thesis
        by (simp add: Handlers_UpdateExpense_def DB_UpdateExpense_def)
    next
      case None
      with ok Inr res have tbl': "tbl' = map (\<lambda>row. if e_ID row = i
                             then row\<lparr>e_Amount := amount, e_Description := desc,
                                      e_Category := '''', e_Date := date\<rparr>
                             else row) tbl"
        by (simp add: Handlers_UpdateExpense_def DB_UpdateExpense_def cat cong: if_cong)
      show ?thesis
        unfolding tbl' by (intro ballI impI) (rule updated_row_category)
    qed
  qed
next
  show "Handlers_CreateExpense pf tp drv now tbl (r\<lparr>FormValue := (FormValue r)(''category'' := c)\<rparr>)
        = Handlers_CreateExpense pf tp drv now tbl r"
    by (simp only: Handlers_CreateExpense_def parseForm_ignores_category)
next
  show "Handlers_UpdateExpense pf tp drv tbl i (r\<lparr>FormValue := (FormValue r)(''category'' := c)\<rparr>)
        = Handlers_UpdateExpense pf tp drv tbl i r"
    by (simp only: Handlers_UpdateExpense_def parseForm_ignores_category)
qed

theorem submitted_category_is_ignored_witness:
  "FormValue example_form ''category'' = ''food''
   \<and> (\<exists>tbl' e. Handlers_CreateExpense example_ParseFloat example_time_Parse None 0 [] example_form
                   = (HXLocation expenses_location, tbl')
               \<and> tbl' = [e] \<and> e_Category e = '''' \<and> e_Description e = ''Lunch Test'')
   \<and> (\<exists>tbl'. Handlers_UpdateExpense example_ParseFloat example_time_Parse None
                   [\<lparr>e_ID = 7, e_Amount = Finite 3, e_Description = ''Bus'', e_Category = ''transport'',
                     e_Date = 0, e_UserID = None\<rparr>] 7 example_form
                   = (HXLocation expenses_location, tbl')
               \<and> (\<forall>e \<in> set tbl'. e_ID e = 7 \<longrightarrow> e_Category e = '''')
               \<and> map e_ID tbl' = [7])"
proof -
  let ?row = "\<lparr>e_ID = 1, e_Amount = Finite 12.5, e_Description = ''Lunch Test'', e_Category = '''',
               e_Date = 1710504000 * 1000000000, e_UserID = None\<rparr>"
  let ?old = "\<lparr>e_ID = 7, e_Amount = Finite 3, e_Description = ''Bus'', e_Category = ''transport'',
               e_Date = 0, e_UserID = None\<rparr>"
  let ?new = "\<lparr>e_ID = 7, e_Amount = Finite 12.5, e_Description = ''Lunch Test'', e_Category = '''',
               e_Date = 1710504000 * 1000000000, e_UserID = None\<rparr>"
  have parsed: "parseForm example_ParseFloat example_time_Parse example_form
      = Inr (Finite 12.5, ''Lunch Test'', '''', 1710504000 * 1000000000)"
    by (simp add: parseForm_def example_form_def example_ParseFloat_def example_time_Parse_def)
  have create: "Handlers_CreateExpense example_ParseFloat example_time_Parse None 0 [] example_form
      = (HXLocation expenses_location, [?row])"
    by (simp add: Handlers_CreateExpense_def parsed DB_CreateExpense_def IsZero_def zeroTime_def
          next_id_def)
  have update: "Handlers_UpdateExpense example_ParseFloat example_time_Parse None [?old] 7 example_form
      = (HXLocation expenses_location, [?new])"
    by (simp add: Handlers_UpdateExpense_def parsed DB_UpdateExpense_def)
  note inst = submitted_category_is_ignored [where pf = example_ParseFloat
      and tp = example_time_Parse and drv = None and r = example_form and loc = expenses_location]
  from inst [where now = 0 and tbl = "[]" and tbl' = "[?row]", THEN conjunct1] create
  have c: "\<exists>e. [?row] = [] @ [e] \<and> e_Category e = ''''" by blast
  from inst [where tbl = "[?old]" and i = 7 and tbl' = "[?new]", THEN conjunct2, THEN conjunct1] update
  have u: "\<forall>e \<in> set [?new]. e_ID e = 7 \<longrightarrow> e_Category e = ''''" by blast
  have f: "FormValue example_form ''category'' = ''food''"
    by (simp add: example_form_def)
  from c create have c': "\<exists>tbl' e. Handlers_CreateExpense example_ParseFloat example_time_Parse None 0 [] example_form
                   = (HXLocation expenses_location, tbl')
               \<and> tbl' = [e] \<and> e_Category e = '''' \<and> e_Description e = ''Lunch Test''"
    by simp
  from u update have u': "\<exists>tbl'. Handlers_UpdateExpense example_ParseFloat example_time_Parse None
                   [?old] 7 example_form = (HXLocation expenses_location, tbl')
               \<and> (\<forall>e \<in> set tbl'. e_ID e = 7 \<longrightarrow> e_Category e = '''')
               \<and> map e_ID tbl' = [7]"
    by simp
  from f c' u' show ?thesis by blast
qed


section \<open>Session validation on the stored text\<close>

lemma text_less_extension:
  assumes "length a = length b" and "s \<noteq> []"
  shows "text_less a (b @ s) \<longleftrightarrow> \<not> text_less b a"
  using assms
proof (induction a b rule: list_induct2)
  case Nil
  then show ?case by (cases s) simp_all
next
  case (Cons x xs y ys)
  then show ?case by auto
qed

lemma length_wall_clock_text: "length (wall_clock_text loc t) = 19"
  by (simp add: wall_clock_text_def pad2_def pad4_def split: prod.splits)

lemma sqlite_expiry_test:
  "text_less (CURRENT_TIMESTAMP now) (Time_String z mreading t) \<longleftrightarrow>
     \<not> text_less (wall_clock_text (offset z) t) (CURRENT_TIMESTAMP now)"
proof -
  have "Time_String z mreading t =
      wall_clock_text (offset z) t @ (fraction_text t @ '' '' @ zone_text z @ mreading)"
    by (simp add: Time_String_def)
  moreover have "fraction_text t @ '' '' @ zone_text z @ mreading \<noteq> []"
    by simp
  moreover have "length (CURRENT_TIMESTAMP now) = length (wall_clock_text (offset z) t)"
    by (simp add: CURRENT_TIMESTAMP_def length_wall_clock_text)
  ultimately show ?thesis
    using text_less_extension [of "CURRENT_TIMESTAMP now" "wall_clock_text (offset z) t"
        "fraction_text t @ '' '' @ zone_text z @ mreading"]
    by simp
qed

lemma CURRENT_TIMESTAMP_at_expiry: "CURRENT_TIMESTAMP expiry_instant = ''2024-03-15 12:00:00''"
  by code_simp

lemma stored_text_utc: "Time_String UTC_zone '' m=+0.001'' expiry_instant = ''2024-03-15 12:00:00 +0000 UTC m=+0.001''"
  by code_simp

lemma stored_text_eet: "Time_String \<lparr>offset = 7200, abbrev = ''EET''\<rparr> '''' expiry_instant = ''2024-03-15 14:00:00 +0200 EET''"
  by code_simp

lemma CURRENT_TIMESTAMP_late: "CURRENT_TIMESTAMP late_instant = ''2024-03-15 13:59:59''"
  by code_simp

text \<open>
  Claim C1 states that validation succeeds exactly when a row of the token has
  \<open>expires_at\<close> strictly after the current time, the instant of expiry itself being
  invalid. The query is written that way (\<open>s.expires_at > CURRENT_TIMESTAMP\<close>), and on
  instants it behaves that way; but the program stores \<open>expires_at\<close> as the text of a
  \<open>time.Time\<close> and SQLite compares that text with the text of \<open>CURRENT_TIMESTAMP\<close>. The
  stored text continues after the 19 characters of the wall clock, so it is the greater one
  whenever the wall clocks agree (\<open>sqlite_expiry_test\<close>). For a session that expires on
  2024-03-15 at 12:00:00 UTC: on a server in UTC the session still validates at the instant
  of its expiry, and on a server two hours east of UTC it still validates 1 h 59 min 59 s
  after it; on instants both validations fail with \<open>sql.ErrNoRows\<close>.
\<close>

theorem sqlite_validation_accepts_expired_session:
  "ValidateSessionWithInfo None expiry_instant boundary_db ''tok'' = Inl ErrNoRows
   \<and> sqlite_ValidateSessionWithInfo UTC_zone '' m=+0.001'' None expiry_instant boundary_db ''tok''
       = Inr \<lparr>User = example_user, LastActivity = 0, ExpiresAt = expiry_instant\<rparr>
   \<and> ValidateSessionWithInfo None late_instant boundary_db ''tok''
       = Inl ErrNoRows
   \<and> sqlite_ValidateSessionWithInfo \<lparr>offset = 7200, abbrev = ''EET''\<rparr> '''' None
         late_instant boundary_db ''tok''
       = Inr \<lparr>User = example_user, LastActivity = 0, ExpiresAt = expiry_instant\<rparr>"
proof -
  have a: "ValidateSessionWithInfo None expiry_instant boundary_db ''tok'' = Inl ErrNoRows"
    by (simp add: ValidateSessionWithInfo_def session_join_def boundary_db_def)
  have b: "ValidateSessionWithInfo None late_instant boundary_db ''tok''
       = Inl ErrNoRows"
    by (simp add: ValidateSessionWithInfo_def session_join_def boundary_db_def late_instant_def)
  have c: "sqlite_ValidateSessionWithInfo UTC_zone '' m=+0.001'' None expiry_instant boundary_db ''tok''
       = Inr \<lparr>User = example_user, LastActivity = 0, ExpiresAt = expiry_instant\<rparr>"
    by (simp add: sqlite_ValidateSessionWithInfo_def sqlite_session_join_def boundary_db_def
          CURRENT_TIMESTAMP_at_expiry stored_text_utc example_user_def)
  have d: "sqlite_ValidateSessionWithInfo \<lparr>offset = 7200, abbrev = ''EET''\<rparr> '''' None
         late_instant boundary_db ''tok''
       = Inr \<lparr>User = example_user, LastActivity = 0, ExpiresAt = expiry_instant\<rparr>"
    by (simp add: sqlite_ValidateSessionWithInfo_def sqlite_session_join_def boundary_db_def
          stored_text_eet CURRENT_TIMESTAMP_late example_user_def)
  from a b c d show ?thesis by (intro conjI)
qed


section \<open>The change against the period before\<close>

lemma change_absent:
  "\<not> fgt prevTotal (Finite 0) \<Longrightarrow> calculatePercentageChange total' prevTotal = (Finite 0, False, False)"
  by (simp add: calculatePercentageChange_def)

lemma abs_scaled_difference: "\<bar>t * 100 - p * 100\<bar> = \<bar>t - p\<bar> * (100::real)"
proof -
  have "t * 100 - p * 100 = (t - p) * 100"
    by (simp add: left_diff_distrib)
  then show ?thesis
    by (simp only: abs_mult abs_numeral)
qed

lemma change_finite:
  "0 < p \<Longrightarrow> calculatePercentageChange (Finite t) (Finite p) = (Finite (\<bar>(t - p) / p\<bar> * 100), True, p < t)"
  by (simp add: calculatePercentageChange_def fsub_def Let_def abs_mult zero_less_divide_iff
        abs_scaled_difference)

lemma change_direction:
  assumes "fgt prevTotal (Finite 0)"
  shows "snd (snd (calculatePercentageChange total' prevTotal)) = fgt total' prevTotal"
proof (cases prevTotal)
  case (Finite p)
  with assms have p: "0 < p" by simp
  show ?thesis
    by (cases total') (use p in \<open>simp_all add: calculatePercentageChange_def fsub_def Let_def Finite
         zero_less_divide_iff zero_less_mult_iff\<close>)
next
  case PosInf
  show ?thesis
    by (cases total') (simp_all add: calculatePercentageChange_def fsub_def Let_def PosInf)
next
  case NegInf
  with assms show ?thesis by simp
next
  case NaN
  with assms show ?thesis by simp
qed

lemma buildMonthView_change:
  assumes "snd (GetCategoryTotalsByMonth db year month) = None"
    and "snd (GetExpensesByMonth db year month) = None"
  shows "(PercentageChange (buildMonthView db year month loc now),
          HasChange (buildMonthView db year month loc now),
          IsIncrease (buildMonthView db year month loc now)) =
         calculatePercentageChange (fst (GetTotalForPeriod db year month))
           (fst (GetTotalForPeriod db (PrevYear (buildMonthView db year month loc now))
                                      (PrevMonth (buildMonthView db year month loc now))))"
  using assms
  by (cases "GetCategoryTotalsByMonth db year month"; cases "GetExpensesByMonth db year month")
     (simp add: buildMonthView_def Let_def)

lemma buildYearView_change:
  assumes "snd (GetCategoryTotalsByYear db year) = None"
    and "snd (GetExpensesByYear db year) = None"
  shows "(PercentageChange (buildYearView db year loc now),
          HasChange (buildYearView db year loc now),
          IsIncrease (buildYearView db year loc now)) =
         calculatePercentageChange (fst (GetTotalForPeriod db year 0))
           (fst (GetTotalForPeriod db (year - 1) 0))"
  using assms
  by (cases "GetCategoryTotalsByYear db year"; cases "GetExpensesByYear db year")
     (simp add: buildYearView_def Let_def)

text \<open>
  Claim C7. When the reads that a view needs succeed, its change, flag and direction are
  those of \<open>calculatePercentageChange\<close> on the total of the period and the total of the
  period before it (the year before, or the month before: \<open>buildMonthView_navigation\<close>
  shows that \<open>PrevYear\<close> and \<open>PrevMonth\<close> are the calendar month before). The change is computed only
  when the earlier total is greater than zero: it is then the absolute value of
  \<open>(total - prevTotal) / prevTotal * 100\<close>, which for finite totals is
  \<open>\<bar>(total - prevTotal) / prevTotal\<bar> * 100\<close>, and the direction, taken before the absolute
  value, is \<open>total > prevTotal\<close>. Otherwise, and so whenever the earlier total is zero,
  whatever the current total, the flag is false and the change is the number zero: no
  division takes place and no infinity or NaN arises from one.
\<close>

theorem percentage_change_needs_prior_total:
  "(snd (GetCategoryTotalsByMonth db year month) = None \<and> snd (GetExpensesByMonth db year month) = None \<longrightarrow>
      (PercentageChange (buildMonthView db year month loc now),
       HasChange (buildMonthView db year month loc now),
       IsIncrease (buildMonthView db year month loc now)) =
      calculatePercentageChange (fst (GetTotalForPeriod db year month))
        (fst (GetTotalForPeriod db (PrevYear (buildMonthView db year month loc now))
                                   (PrevMonth (buildMonthView db year month loc now)))))
   \<and> (snd (GetCategoryTotalsByYear db year) = None \<and> snd (GetExpensesByYear db year) = None \<longrightarrow>
      (PercentageChange (buildYearView db year loc now),
       HasChange (buildYearView db year loc now),
       IsIncrease (buildYearView db year loc now)) =
      calculatePercentageChange (fst (GetTotalForPeriod db year 0))
        (fst (GetTotalForPeriod db (year - 1) 0)))
   \<and> (fgt prevTotal (Finite 0) \<longrightarrow>
        calculatePercentageChange total' prevTotal =
          (fabs (fmul (fdiv (fsub total' prevTotal) prevTotal) (Finite 100)), True,
           fgt total' prevTotal))
   \<and> (0 < p \<longrightarrow>
        calculatePercentageChange (Finite t) (Finite p) =
          (Finite (\<bar>(t - p) / p\<bar> * 100), True, p < t))
   \<and> (\<not> fgt prevTotal (Finite 0) \<longrightarrow>
        calculatePercentageChange total' prevTotal = (Finite 0, False, False))
   \<and> calculatePercentageChange total' (Finite 0) = (Finite 0, False, False)"
proof (intro conjI impI)
  assume "snd (GetCategoryTotalsByMonth db year month) = None \<and> snd (GetExpensesByMonth db year month) = None"
  then show "(PercentageChange (buildMonthView db year month loc now),
       HasChange (buildMonthView db year month loc now),
       IsIncrease (buildMonthView db year month loc now)) =
      calculatePercentageChange (fst (GetTotalForPeriod db year month))
        (fst (GetTotalForPeriod db (PrevYear (buildMonthView db year month loc now))
                                   (PrevMonth (buildMonthView db year month loc now))))"
    by (simp only: buildMonthView_change)
next
  assume "snd (GetCategoryTotalsByYear db year) = None \<and> snd (GetExpensesByYear db year) = None"
  then show "(PercentageChange (buildYearView db year loc now),
       HasChange (buildYearView db year loc now),
       IsIncrease (buildYearView db year loc now)) =
      calculatePercentageChange (fst (GetTotalForPeriod db year 0))
        (fst (GetTotalForPeriod db (year - 1) 0))"
    by (simp only: buildYearView_change)
next
  assume pos: "fgt prevTotal (Finite 0)"
  have "calculatePercentageChange total' prevTotal =
      (fabs (fmul (fdiv (fsub total' prevTotal) prevTotal) (Finite 100)), True,
       snd (snd (calculatePercentageChange total' prevTotal)))"
    using pos by (simp add: calculatePercentageChange_def Let_def)
  then show "calculatePercentageChange total' prevTotal =
          (fabs (fmul (fdiv (fsub total' prevTotal) prevTotal) (Finite 100)), True,
           fgt total' prevTotal)"
    by (simp only: change_direction [OF pos])
next
  assume "0 < p"
  then show "calculatePercentageChange (Finite t) (Finite p) =
          (Finite (\<bar>(t - p) / p\<bar> * 100), True, p < t)"
    by (rule change_finite)
next
  assume "\<not> fgt prevTotal (Finite 0)"
  then show "calculatePercentageChange total' prevTotal = (Finite 0, False, False)"
    by (rule change_absent)
next
  show "calculatePercentageChange total' (Finite 0) = (Finite 0, False, False)"
    by (simp add: calculatePercentageChange_def)
qed

lemma example_previous_month:
  "Year UTC (AddDate UTC (Date 2024 2 1 0 0 0 0 UTC) 0 (- 1) 0) = 2024"
  "Month UTC (AddDate UTC (Date 2024 2 1 0 0 0 0 UTC) 0 (- 1) 0) = 1"
  by code_simp+

theorem percentage_change_needs_prior_total_witness:
  "PercentageChange (buildMonthView example_store 2024 2 UTC 0) = Finite 25
   \<and> HasChange (buildMonthView example_store 2024 2 UTC 0)
   \<and> IsIncrease (buildMonthView example_store 2024 2 UTC 0)
   \<and> PercentageChange (buildYearView example_store 2024 UTC 0) = Finite 0
   \<and> \<not> HasChange (buildYearView example_store 2024 UTC 0)
   \<and> \<not> IsIncrease (buildYearView example_store 2024 UTC 0)"
proof -
  note inst = percentage_change_needs_prior_total [where db = example_store and year = 2024
      and month = 2 and loc = UTC and now = 0 and t = 40 and p = 32 and prevTotal = "Finite 0"]
  have reads: "snd (GetCategoryTotalsByMonth example_store 2024 2) = None
      \<and> snd (GetExpensesByMonth example_store 2024 2) = None"
    "snd (GetCategoryTotalsByYear example_store 2024) = None
      \<and> snd (GetExpensesByYear example_store 2024) = None"
    by (simp_all add: example_store_def)
  have prev: "PrevYear (buildMonthView example_store 2024 2 UTC 0) = 2024"
    "PrevMonth (buildMonthView example_store 2024 2 UTC 0) = 1"
    by (simp_all add: buildMonthView_def example_store_def Let_def example_previous_month)
  have totals: "fst (GetTotalForPeriod example_store 2024 2) = Finite 40"
    "fst (GetTotalForPeriod example_store 2024 1) = Finite 32"
    "fst (GetTotalForPeriod example_store 2024 0) = Finite 40"
    "fst (GetTotalForPeriod example_store 2023 0) = Finite 0"
    by (simp_all add: example_store_def)
  have pos: "(0::real) < 32" by simp
  from inst [THEN conjunct1, rule_format, OF reads(1)]
    inst [THEN conjunct2, THEN conjunct2, THEN conjunct2, THEN conjunct1, rule_format, OF pos]
  have m: "(PercentageChange (buildMonthView example_store 2024 2 UTC 0),
       HasChange (buildMonthView example_store 2024 2 UTC 0),
       IsIncrease (buildMonthView example_store 2024 2 UTC 0)) = (Finite 25, True, True)"
    by (simp add: prev totals)
  from inst [THEN conjunct2, THEN conjunct1, rule_format, OF reads(2)]
    inst [THEN conjunct2, THEN conjunct2, THEN conjunct2, THEN conjunct2, THEN conjunct2]
  have y: "(PercentageChange (buildYearView example_store 2024 UTC 0),
       HasChange (buildYearView example_store 2024 UTC 0),
       IsIncrease (buildYearView example_store 2024 UTC 0)) = (Finite 0, False, False)"
    by (simp add: totals)
  from m y show ?thesis by simp
qed


section \<open>Category percentages\<close>

lemma buildMonthView_Categories:
  assumes "snd (GetCategoryTotalsByMonth db year month) = None"
    and "snd (GetExpensesByMonth db year month) = None"
  shows "Categories (buildMonthView db year month loc now) =
         categoryItems (fst (GetCategoryTotalsByMonth db year month))
           (fst (GetTotalForPeriod db year month))"
  using assms
  by (cases "GetCategoryTotalsByMonth db year month"; cases "GetExpensesByMonth db year month")
     (simp add: buildMonthView_def Let_def)

lemma buildYearView_Categories:
  assumes "snd (GetCategoryTotalsByYear db year) = None"
    and "snd (GetExpensesByYear db year) = None"
  shows "Categories (buildYearView db year loc now) =
         categoryItems (fst (GetCategoryTotalsByYear db year)) (fst (GetTotalForPeriod db year 0))"
  using assms
  by (cases "GetCategoryTotalsByYear db year"; cases "GetExpensesByYear db year")
     (simp add: buildYearView_def Let_def)

lemma percentage_rule:
  "map sci_Percentage (categoryItems cts total') =
     map (\<lambda>ct. if fgt total' (Finite 0) then fmul (fdiv (ct_Total ct) total') (Finite 100)
                else Finite 0) cts"
  by (simp add: categoryItems_def comp_def)

lemma percentage_finite_item:
  assumes "0 < T" and "is_finite c"
  shows "(if fgt (Finite T) (Finite 0) then fmul (fdiv c (Finite T)) (Finite 100) else Finite 0)
       = Finite (value_of c / T * 100)"
  using assms by (cases c) (simp_all add: is_finite_def value_of_def)

lemma percentage_positive_total:
  assumes "0 < T" and "\<forall>ct \<in> set cts. is_finite (ct_Total ct)"
  shows "map sci_Percentage (categoryItems cts (Finite T)) =
         map (\<lambda>ct. Finite (value_of (ct_Total ct) / T * 100)) cts"
  unfolding percentage_rule
  using assms by (intro map_cong refl percentage_finite_item) auto

lemma percentage_sum:
  assumes "0 < T" and "\<forall>ct \<in> set cts. is_finite (ct_Total ct)"
    and "(\<Sum>ct\<leftarrow>cts. value_of (ct_Total ct)) = T"
  shows "(\<Sum>it\<leftarrow>categoryItems cts (Finite T). value_of (sci_Percentage it)) = 100"
proof -
  have "(\<Sum>it\<leftarrow>categoryItems cts (Finite T). value_of (sci_Percentage it)) =
        sum_list (map value_of (map sci_Percentage (categoryItems cts (Finite T))))"
    by (simp add: comp_def)
  also have "\<dots> = (\<Sum>ct\<leftarrow>cts. value_of (ct_Total ct) / T * 100)"
    by (simp add: percentage_positive_total [OF assms(1,2)] comp_def value_of_def)
  also have "\<dots> = (\<Sum>ct\<leftarrow>cts. value_of (ct_Total ct)) / T * 100"
    by (induction cts) (simp_all add: add_divide_distrib distrib_right)
  also have "\<dots> = 100"
    using assms(1) by (simp add: assms(3))
  finally show ?thesis .
qed

lemma percentage_zero_total:
  "\<not> fgt total' (Finite 0) \<Longrightarrow>
     map sci_Percentage (categoryItems cts total') = map (\<lambda>ct. Finite 0) cts"
  by (simp add: percentage_rule)

text \<open>
  Claim C8. When the reads that a view needs succeed, its category items are those of
  \<open>categoryItems\<close> on the category totals and the total of the period. The percentage of
  an item is \<open>categoryTotal / total * 100\<close> when the total is greater than zero and the
  number zero otherwise; the division is only made by a total greater than zero. For a
  finite total \<open>T > 0\<close> and finite category totals the percentages are the finite numbers
  \<open>c / T * 100\<close>, and they add up to 100 when the category totals add up to \<open>T\<close>, as the
  totals of one period do. When the total is zero every percentage is zero.
\<close>

theorem category_percentages:
  "(snd (GetCategoryTotalsByMonth db year month) = None \<and> snd (GetExpensesByMonth db year month) = None \<longrightarrow>
      Categories (buildMonthView db year month loc now) =
        categoryItems (fst (GetCategoryTotalsByMonth db year month))
          (fst (GetTotalForPeriod db year month)))
   \<and> (snd (GetCategoryTotalsByYear db year) = None \<and> snd (GetExpensesByYear db year) = None \<longrightarrow>
      Categories (buildYearView db year loc now) =
        categoryItems (fst (GetCategoryTotalsByYear db year)) (fst (GetTotalForPeriod db year 0)))
   \<and> map sci_Percentage (categoryItems cts total') =
        map (\<lambda>ct. if fgt total' (Finite 0) then fmul (fdiv (ct_Total ct) total') (Finite 100)
                   else Finite 0) cts
   \<and> (0 < T \<and> (\<forall>ct \<in> set cts. is_finite (ct_Total ct)) \<longrightarrow>
        map sci_Percentage (categoryItems cts (Finite T)) =
          map (\<lambda>ct. Finite (value_of (ct_Total ct) / T * 100)) cts)
   \<and> (0 < T \<and> (\<forall>ct \<in> set cts. is_finite (ct_Total ct))
        \<and> (\<Sum>ct\<leftarrow>cts. value_of (ct_Total ct)) = T \<longrightarrow>
        (\<Sum>it\<leftarrow>categoryItems cts (Finite T). value_of (sci_Percentage it)) = 100)
   \<and> map sci_Percentage (categoryItems cts (Finite 0)) = map (\<lambda>ct. Finite 0) cts"
proof (intro conjI impI)
  assume "snd (GetCategoryTotalsByMonth db year month) = None \<and> snd (GetExpensesByMonth db year month) = None"
  then show "Categories (buildMonthView db year month loc now) =
        categoryItems (fst (GetCategoryTotalsByMonth db year month))
          (fst (GetTotalForPeriod db year month))"
    by (simp only: buildMonthView_Categories)
next
  assume "snd (GetCategoryTotalsByYear db year) = None \<and> snd (GetExpensesByYear db year) = None"
  then show "Categories (buildYearView db year loc now) =
        categoryItems (fst (GetCategoryTotalsByYear db year)) (fst (GetTotalForPeriod db year 0))"
    by (simp only: buildYearView_Categories)
next
  show "map sci_Percentage (categoryItems cts total') =
        map (\<lambda>ct. if fgt total' (Finite 0) then fmul (fdiv (ct_Total ct) total') (Finite 100)
                   else Finite 0) cts"
    by (rule percentage_rule)
next
  assume "0 < T \<and> (\<forall>ct \<in> set cts. is_finite (ct_Total ct))"
  then show "map sci_Percentage (categoryItems cts (Finite T)) =
          map (\<lambda>ct. Finite (value_of (ct_Total ct) / T * 100)) cts"
    using percentage_positive_total [of T cts] by blast
next
  assume "0 < T \<and> (\<forall>ct \<in> set cts. is_finite (ct_Total ct))
        \<and> (\<Sum>ct\<leftarrow>cts. value_of (ct_Total ct)) = T"
  then show "(\<Sum>it\<leftarrow>categoryItems cts (Finite T). value_of (sci_Percentage it)) = 100"
    using percentage_sum [of T cts] by blast
next
  show "map sci_Percentage (categoryItems cts (Finite 0)) = map (\<lambda>ct. Finite 0) cts"
    by (rule percentage_zero_total) simp
qed

theorem category_percentages_witness:
  "map sci_Category (Categories (buildMonthView example_store 2024 2 UTC 0)) = [''food'', ''transport'']
   \<and> map sci_Percentage (Categories (buildMonthView example_store 2024 2 UTC 0)) = [Finite 50, Finite 50]
   \<and> (\<Sum>it\<leftarrow>Categories (buildMonthView example_store 2024 2 UTC 0). value_of (sci_Percentage it)) = 100
   \<and> map sci_Percentage (Categories (buildMonthView example_store 2024 3 UTC 0)) = [Finite 0, Finite 0]"
proof -
  let ?cts = "[\<lparr>ct_Category = ''food'', ct_Total = Finite 20, ct_Count = 2\<rparr>,
          \<lparr>ct_Category = ''transport'', ct_Total = Finite 20, ct_Count = 1\<rparr>]"
  note inst = category_percentages [where db = example_store and year = 2024 and loc = UTC
      and now = 0 and cts = ?cts and T = 40]
  have reads: "snd (GetCategoryTotalsByMonth example_store 2024 m) = None
      \<and> snd (GetExpensesByMonth example_store 2024 m) = None" for m
    by (simp add: example_store_def)
  have cts: "fst (GetCategoryTotalsByMonth example_store 2024 m) = ?cts" for m
    by (simp add: example_store_def)
  have totals: "fst (GetTotalForPeriod example_store 2024 2) = Finite 40"
    "fst (GetTotalForPeriod example_store 2024 3) = Finite 0"
    by (simp_all add: example_store_def)
  have fin: "0 < (40::real) \<and> (\<forall>ct \<in> set ?cts. is_finite (ct_Total ct))"
    by (simp add: is_finite_def)
  have total: "0 < (40::real) \<and> (\<forall>ct \<in> set ?cts. is_finite (ct_Total ct))
      \<and> (\<Sum>ct\<leftarrow>?cts. value_of (ct_Total ct)) = 40"
    by (simp add: is_finite_def value_of_def)
  have feb: "Categories (buildMonthView example_store 2024 2 UTC 0) = categoryItems ?cts (Finite 40)"
    using inst [where month = 2, THEN conjunct1, rule_format, OF reads] by (simp add: cts totals)
  have mar: "Categories (buildMonthView example_store 2024 3 UTC 0) = categoryItems ?cts (Finite 0)"
    using inst [where month = 3, THEN conjunct1, rule_format, OF reads] by (simp add: cts totals)
  have names: "map sci_Category (categoryItems ?cts (Finite 40)) = [''food'', ''transport'']"
    by (simp add: categoryItems_def)
  have p: "map sci_Percentage (categoryItems ?cts (Finite 40)) = [Finite 50, Finite 50]"
    using inst [THEN conjunct2, THEN conjunct2, THEN conjunct2, THEN conjunct1, rule_format, OF fin]
    by (simp add: value_of_def)
  have s: "(\<Sum>it\<leftarrow>categoryItems ?cts (Finite 40). value_of (sci_Percentage it)) = 100"
    using inst [THEN conjunct2, THEN conjunct2, THEN conjunct2, THEN conjunct2, THEN conjunct1,
        rule_format, OF total] .
  have z: "map sci_Percentage (categoryItems ?cts (Finite 0)) = [Finite 0, Finite 0]"
    using inst [THEN conjunct2, THEN conjunct2, THEN conjunct2, THEN conjunct2, THEN conjunct2]
    by simp
  show ?thesis
    unfolding feb mar using names p s z by (intro conjI)
qed


section \<open>Failing reads in the statistics\<close>

lemma buildMonthView_aborts:
  assumes "snd (GetCategoryTotalsByMonth db year month) \<noteq> None
      \<or> snd (GetExpensesByMonth db year month) \<noteq> None"
  shows "buildMonthView db year month loc now = zeroStatsViewModel"
  using assms
  by (cases "GetCategoryTotalsByMonth db year month"; cases "GetExpensesByMonth db year month")
     (auto simp: buildMonthView_def split: option.splits)

lemma buildYearView_aborts:
  assumes "snd (GetCategoryTotalsByYear db year) \<noteq> None
      \<or> snd (GetExpensesByYear db year) \<noteq> None"
  shows "buildYearView db year loc now = zeroStatsViewModel"
  using assms
  by (cases "GetCategoryTotalsByYear db year"; cases "GetExpensesByYear db year")
     (auto simp: buildYearView_def split: option.splits)

lemma Statistics_renders:
  "Statistics Atoi db loc now q =
     Render ''stats.html''
       (if (if q_view q = '''' then ''month'' else q_view q) = ''year''
        then buildYearView db
               (if q_year q \<noteq> '''' \<and> snd (Atoi (q_year q)) = None
                then fst (Atoi (q_year q)) else Year loc now) loc now
        else buildMonthView db
               (if q_year q \<noteq> '''' \<and> snd (Atoi (q_year q)) = None
                then fst (Atoi (q_year q)) else Year loc now)
               (if q_month q \<noteq> '''' \<and> snd (Atoi (q_month q)) = None
                    \<and> 1 \<le> fst (Atoi (q_month q)) \<and> fst (Atoi (q_month q)) \<le> 12
                then fst (Atoi (q_month q)) else Month loc now) loc now)"
  by (simp add: Statistics_def Let_def)

lemma total_errors_discarded_month:
  "buildMonthView (db\<lparr>GetTotalForPeriod := (\<lambda>y m. (fst (GetTotalForPeriod db y m), e y m))\<rparr>)
       year month loc now
   = buildMonthView db year month loc now"
  by (simp add: buildMonthView_def)

lemma total_errors_discarded_year:
  "buildYearView (db\<lparr>GetTotalForPeriod := (\<lambda>y m. (fst (GetTotalForPeriod db y m), e y m))\<rparr>)
       year loc now
   = buildYearView db year loc now"
  by (simp add: buildYearView_def)

text \<open>
  Claim C4 as it stands says that any failing read aborts the aggregation with an internal
  error and that no partial aggregate is returned. With a store whose read of the period
  total fails, the handler renders the month view with both categories and their totals
  present, the total zero and so every percentage zero.
\<close>

theorem partial_aggregate_counterexample:
  "snd (GetTotalForPeriod store_total_fails 2024 2) = Some (DriverError ''disk I/O error'')
   \<and> Statistics example_Atoi store_total_fails UTC 0 example_query
       = Render ''stats.html'' (buildMonthView store_total_fails 2024 2 UTC 0)
   \<and> map sci_Category (Categories (buildMonthView store_total_fails 2024 2 UTC 0))
       = [''food'', ''transport'']
   \<and> map sci_Total (Categories (buildMonthView store_total_fails 2024 2 UTC 0))
       = [Finite 20, Finite 20]
   \<and> vm_Total (buildMonthView store_total_fails 2024 2 UTC 0) = Finite 0
   \<and> map sci_Percentage (Categories (buildMonthView store_total_fails 2024 2 UTC 0))
       = [Finite 0, Finite 0]"
  by (simp add: Statistics_renders example_Atoi_def example_query_def)
     (simp add: buildMonthView_def store_total_fails_def example_store_def Let_def
        categoryItems_def)

text \<open>
  Claim C4, as amended. In both modes a failure of the read of the category totals or of
  the read of the expenses ends the aggregation: the builder returns the zero-valued view
  model, in which no sub-result is present. No failure is surfaced as an internal error:
  the handler renders the view model it gets, whatever the reads returned. The error of a
  read of a period total is discarded, and the aggregation goes on with the value that the
  read returned.
\<close>

theorem read_failures_in_statistics:
  "(snd (GetCategoryTotalsByMonth db year month) \<noteq> None
      \<or> snd (GetExpensesByMonth db year month) \<noteq> None \<longrightarrow>
        buildMonthView db year month loc now = zeroStatsViewModel)
   \<and> (snd (GetCategoryTotalsByYear db year) \<noteq> None
      \<or> snd (GetExpensesByYear db year) \<noteq> None \<longrightarrow>
        buildYearView db year loc now = zeroStatsViewModel)
   \<and> (\<exists>vm. Statistics Atoi db loc now q = Render ''stats.html'' vm)
   \<and> buildMonthView (db\<lparr>GetTotalForPeriod := (\<lambda>y m. (fst (GetTotalForPeriod db y m), e y m))\<rparr>)
         year month loc now
       = buildMonthView db year month loc now
   \<and> buildYearView (db\<lparr>GetTotalForPeriod := (\<lambda>y m. (fst (GetTotalForPeriod db y m), e y m))\<rparr>)
         year loc now
       = buildYearView db year loc now"
  by (simp add: buildMonthView_aborts buildYearView_aborts Statistics_renders
        total_errors_discarded_month total_errors_discarded_year)

theorem read_failures_in_statistics_witness:
  "snd (GetCategoryTotalsByMonth store_categories_fail 2024 2) \<noteq> None
   \<and> buildMonthView store_categories_fail 2024 2 UTC 0 = zeroStatsViewModel
   \<and> Statistics example_Atoi store_categories_fail UTC 0 example_query
       = Render ''stats.html'' zeroStatsViewModel
   \<and> Categories zeroStatsViewModel = [] \<and> ChartData zeroStatsViewModel = []"
proof -
  have failed: "snd (GetCategoryTotalsByMonth store_categories_fail 2024 2) \<noteq> None
      \<or> snd (GetExpensesByMonth store_categories_fail 2024 2) \<noteq> None"
    by (simp add: store_categories_fail_def)
  have zero: "buildMonthView store_categories_fail 2024 2 UTC 0 = zeroStatsViewModel"
    using read_failures_in_statistics [where db = store_categories_fail and year = 2024
        and month = 2 and loc = UTC and now = 0, THEN conjunct1, rule_format, OF failed] .
  have page: "Statistics example_Atoi store_categories_fail UTC 0 example_query
       = Render ''stats.html'' (buildMonthView store_categories_fail 2024 2 UTC 0)"
    by (simp add: Statistics_renders example_Atoi_def example_query_def)
  show ?thesis
    using zero page by (simp add: store_categories_fail_def zeroStatsViewModel_def)
qed


section \<open>The last day of a month\<close>

lemma div_step:
  fixes y d :: int
  assumes "0 < d"
  shows "y div d - (y - 1) div d = (if y mod d = 0 then 1 else 0)"
proof -
  define q where "q = y div d"
  define r where "r = y mod d"
  have y: "y = d * q + r"
    by (simp add: q_def r_def)
  have r: "0 \<le> r" "r < d"
    using assms by (simp_all add: r_def)
  show ?thesis
  proof (cases "r = 0")
    case True
    have "y - 1 = d * (q - 1) + (d - 1)"
      using y True by (simp add: algebra_simps)
    then have "(y - 1) div d = q - 1"
      by (rule int_div_pos_eq) (use assms in auto)
    with True show ?thesis
      by (simp add: q_def [symmetric] r_def [symmetric])
  next
    case False
    have "y - 1 = d * q + (r - 1)"
      using y by simp
    then have "(y - 1) div d = q"
      by (rule int_div_pos_eq) (use r False in auto)
    with False show ?thesis
      by (simp add: q_def [symmetric] r_def [symmetric])
  qed
qed

lemma div_bounds:
  fixes n d :: int
  assumes "0 < d"
  shows "d * (n div d) \<le> n" and "n < d * (n div d) + d"
proof -
  have "d * (n div d) + n mod d = n"
    by (rule mult_div_mod_eq)
  moreover have "0 \<le> n mod d" "n mod d < d"
    using assms by simp_all
  ultimately show "d * (n div d) \<le> n" and "n < d * (n div d) + d"
    by linarith+
qed

lemma mod_zero_of_multiple:
  fixes y a b :: int
  assumes "a dvd b" and "y mod b = 0"
  shows "y mod a = 0"
proof -
  have "y mod a = (y mod b) mod a"
    using assms(1) by (simp add: mod_mod_cancel)
  then show ?thesis
    by (simp add: assms(2))
qed

lemma days_before_year_step:
  "days_before_year (y + 1) = days_before_year y + (if isLeap y then 366 else 365)"
proof -
  have s4: "y div 4 - (y - 1) div 4 = (if y mod 4 = 0 then 1 else 0)"
    by (rule div_step) simp
  have s100: "y div 100 - (y - 1) div 100 = (if y mod 100 = 0 then 1 else 0)"
    by (rule div_step) simp
  have s400: "y div 400 - (y - 1) div 400 = (if y mod 400 = 0 then 1 else 0)"
    by (rule div_step) simp
  have m1: "y mod 100 = 0 \<Longrightarrow> y mod 4 = 0"
    by (rule mod_zero_of_multiple [of 4 100]) simp_all
  have m2: "y mod 400 = 0 \<Longrightarrow> y mod 100 = 0"
    by (rule mod_zero_of_multiple [of 100 400]) simp_all
  define a where "a = y div 4 - (y - 1) div 4"
  define b where "b = y div 100 - (y - 1) div 100"
  define c where "c = y div 400 - (y - 1) div 400"
  have dby: "days_before_year (y + 1) = days_before_year y + 365 + a - b + c"
    by (simp add: days_before_year_def a_def b_def c_def)
  have abc: "a - b + c = (if isLeap y then 1 else 0)"
    unfolding a_def b_def c_def s4 s100 s400 isLeap_def
    using m1 m2 by (cases "y mod 4 = 0"; cases "y mod 100 = 0"; cases "y mod 400 = 0") simp_all
  show ?thesis
    using dby abc by (simp split: if_splits)
qed

lemma days_before_year_bounds_aux:
  fixes N a b c :: int
  assumes "4 * a \<le> N" "N < 4 * a + 4" "100 * b \<le> N" "N < 100 * b + 100"
    "400 * c \<le> N" "N < 400 * c + 400"
  shows "146097 * N - 699 \<le> 400 * (365 * N + a - b + c)"
    and "400 * (365 * N + a - b + c) \<le> 146097 * N + 396"
proof -
  show "146097 * N - 699 \<le> 400 * (365 * N + a - b + c)"
    using assms by (simp add: algebra_simps)
  show "400 * (365 * N + a - b + c) \<le> 146097 * N + 396"
    using assms by (simp add: algebra_simps)
qed

lemma days_before_year_lower: "146097 * (y - 1) - 699 \<le> 400 * days_before_year y"
  unfolding days_before_year_def
  by (rule days_before_year_bounds_aux(1)) (simp_all add: div_bounds)

lemma days_before_year_upper: "400 * days_before_year y \<le> 146097 * (y - 1) + 396"
  unfolding days_before_year_def
  by (rule days_before_year_bounds_aux(2)) (simp_all add: div_bounds)

lemma days_before_year_mono:
  assumes "a \<le> b"
  shows "days_before_year a \<le> days_before_year b"
  using assms
proof (induction b rule: int_ge_induct)
  case base
  show ?case by simp
next
  case (step i)
  have "days_before_year i \<le> days_before_year (i + 1)"
    by (simp add: days_before_year_step)
  with step.IH show ?case by linarith
qed

lemma year_of_days_bracket:
  "days_before_year (year_of_days z) \<le> z \<and> z < days_before_year (year_of_days z + 1)"
proof -
  define N where "N = (400 * z) div 146097"
  have lo: "146097 * N \<le> 400 * z" and hi: "400 * z < 146097 * N + 146097"
    unfolding N_def by (simp_all add: div_bounds)
  have y0: "year_of_days z =
      (if z < days_before_year (N + 1) then N
       else if days_before_year (N + 2) \<le> z then N + 2 else N + 1)"
    by (simp add: year_of_days_def N_def Let_def add.commute)
  show ?thesis
  proof (cases "z < days_before_year (N + 1)")
    case True
    have "400 * days_before_year N \<le> 146097 * (N - 1) + 396"
      by (rule days_before_year_upper)
    with lo have "days_before_year N \<le> z"
      by (simp add: algebra_simps)
    with True show ?thesis
      by (simp add: y0)
  next
    case False
    show ?thesis
    proof (cases "days_before_year (N + 2) \<le> z")
      case True
      have "146097 * (N + 3 - 1) - 699 \<le> 400 * days_before_year (N + 3)"
        by (rule days_before_year_lower)
      with hi have "z < days_before_year (N + 3)"
        by (simp add: algebra_simps)
      with True False show ?thesis
        by (simp add: y0 add.assoc)
    next
      case nt: False
      with False show ?thesis
        by (simp add: y0 add.assoc)
    qed
  qed
qed

lemma year_of_days_unique:
  assumes "days_before_year y \<le> z" and "z < days_before_year (y + 1)"
  shows "year_of_days z = y"
proof (rule ccontr)
  assume ne: "year_of_days z \<noteq> y"
  note b = year_of_days_bracket [of z]
  show False
  proof (cases "year_of_days z < y")
    case True
    then have "days_before_year (year_of_days z + 1) \<le> days_before_year y"
      by (intro days_before_year_mono) simp
    with b assms(1) show False by linarith
  next
    case False
    with ne have "days_before_year (y + 1) \<le> days_before_year (year_of_days z)"
      by (intro days_before_year_mono) simp
    with b assms(2) show False by linarith
  qed
qed

lemma month_cases:
  "1 \<le> (m::int) \<Longrightarrow> m \<le> 12 \<Longrightarrow>
     m = 1 \<or> m = 2 \<or> m = 3 \<or> m = 4 \<or> m = 5 \<or> m = 6 \<or> m = 7 \<or> m = 8 \<or> m = 9
     \<or> m = 10 \<or> m = 11 \<or> m = 12"
  by arith

lemma days_before_month_step:
  assumes "1 \<le> m" and "m \<le> 12"
  shows "days_before_month y (m + 1) = days_before_month y m + daysIn m y"
proof -
  from assms consider "m = 1" | "m = 2" | "m = 3" | "m = 4" | "m = 5" | "m = 6" | "m = 7"
    | "m = 8" | "m = 9" | "m = 10" | "m = 11" | "m = 12"
    using month_cases [of m] by blast
  then show ?thesis
    by cases (simp_all add: days_before_month_def daysBefore_def daysIn_def)
qed

lemma days_before_month_bounds:
  assumes "1 \<le> m" and "m \<le> 13"
  shows "0 \<le> days_before_month y m"
    and "days_before_month y m \<le> (if isLeap y then 366 else 365)"
  using assms by (simp_all add: days_before_month_def daysBefore_def)


lemma month_of_yday_unique:
  assumes "1 \<le> m" and "m \<le> 12"
    and "days_before_month y m \<le> k" and "k < days_before_month y (m + 1)"
  shows "month_of_yday y k = m"
proof -
  from assms(1,2) consider "m = 1" | "m = 2" | "m = 3" | "m = 4" | "m = 5" | "m = 6" | "m = 7"
    | "m = 8" | "m = 9" | "m = 10" | "m = 11" | "m = 12"
    using month_cases [of m] by blast
  then show ?thesis
  proof cases
    case 1 with assms(3,4) show ?thesis
      by (cases "isLeap y") (simp_all add: month_of_yday_def days_before_month_def daysBefore_def)
  next
    case 2 with assms(3,4) show ?thesis
      by (cases "isLeap y") (simp_all add: month_of_yday_def days_before_month_def daysBefore_def)
  next
    case 3 with assms(3,4) show ?thesis
      by (cases "isLeap y") (simp_all add: month_of_yday_def days_before_month_def daysBefore_def)
  next
    case 4 with assms(3,4) show ?thesis
      by (cases "isLeap y") (simp_all add: month_of_yday_def days_before_month_def daysBefore_def)
  next
    case 5 with assms(3,4) show ?thesis
      by (cases "isLeap y") (simp_all add: month_of_yday_def days_before_month_def daysBefore_def)
  next
    case 6 with assms(3,4) show ?thesis
      by (cases "isLeap y") (simp_all add: month_of_yday_def days_before_month_def daysBefore_def)
  next
    case 7 with assms(3,4) show ?thesis
      by (cases "isLeap y") (simp_all add: month_of_yday_def days_before_month_def daysBefore_def)
  next
    case 8 with assms(3,4) show ?thesis
      by (cases "isLeap y") (simp_all add: month_of_yday_def days_before_month_def daysBefore_def)
  next
    case 9 with assms(3,4) show ?thesis
      by (cases "isLeap y") (simp_all add: month_of_yday_def days_before_month_def daysBefore_def)
  next
    case 10 with assms(3,4) show ?thesis
      by (cases "isLeap y") (simp_all add: month_of_yday_def days_before_month_def daysBefore_def)
  next
    case 11 with assms(3,4) show ?thesis
      by (cases "isLeap y") (simp_all add: month_of_yday_def days_before_month_def daysBefore_def)
  next
    case 12 with assms(3,4) show ?thesis
      by (cases "isLeap y") (simp_all add: month_of_yday_def days_before_month_def daysBefore_def)
  qed
qed

lemma daysIn_ge_28: "28 \<le> daysIn m y"
  by (simp add: daysIn_def)



section \<open>The chart of the month view\<close>











section \<open>Listing on the stored text\<close>

lemma set_insert_desc: "set (insert_desc lt x xs) = insert x (set xs)"
  by (induction xs) auto

lemma set_order_by_desc: "set (order_by_desc lt xs) = set xs"
  unfolding order_by_desc_def by (induction xs) (simp_all add: set_insert_desc)

lemma sorted_insert_desc:
  fixes key :: "'a \<Rightarrow> int"
  assumes "sorted_wrt (\<lambda>a b. key b \<le> key a) xs"
  shows "sorted_wrt (\<lambda>a b. key b \<le> key a) (insert_desc (\<lambda>a b. key a < key b) x xs)"
  using assms by (induction xs) (auto simp: set_insert_desc)

lemma sorted_order_by_desc:
  fixes key :: "'a \<Rightarrow> int"
  shows "sorted_wrt (\<lambda>a b. key b \<le> key a) (order_by_desc (\<lambda>a b. key a < key b) xs)"
  unfolding order_by_desc_def by (induction xs) (simp_all add: sorted_insert_desc)

lemma DB_ListExpenses_on_instants:
  assumes "DB_ListExpenses None loc now tbl = Inr result"
  shows "set result = (\<lambda>e. e\<lparr>e_UserID := None\<rparr>) ` {e \<in> set tbl. startOfMonth loc now \<le> e_Date e}"
    and "sorted_wrt (\<lambda>a b. e_Date b \<le> e_Date a) result"
proof -
  let ?rows = "order_by_desc (\<lambda>a b. e_Date a < e_Date b)
      (filter (\<lambda>e. startOfMonth loc now \<le> e_Date e) tbl)"
  from assms have r: "result = map (\<lambda>e. e\<lparr>e_UserID := None\<rparr>) ?rows"
    by (simp add: DB_ListExpenses_def)
  show "set result = (\<lambda>e. e\<lparr>e_UserID := None\<rparr>) ` {e \<in> set tbl. startOfMonth loc now \<le> e_Date e}"
    by (simp add: r set_order_by_desc)
  have "sorted_wrt (\<lambda>a b. e_Date b \<le> e_Date a) ?rows"
    by (rule sorted_order_by_desc)
  then show "sorted_wrt (\<lambda>a b. e_Date b \<le> e_Date a) result"
    by (simp add: r sorted_wrt_map)
qed

lemma example_month_start:
  "startOfMonth (offset CET_zone) march_15_noon_CET = Date 2024 3 1 0 0 0 0 3600"
  by code_simp

lemma example_dates:
  "e_Date month_start_expense = startOfMonth (offset CET_zone) march_15_noon_CET"
  "startOfMonth (offset CET_zone) march_15_noon_CET \<le> e_Date march_first_expense"
  by code_simp+

lemma example_texts:
  "Time_String CET_zone '''' (startOfMonth (offset CET_zone) march_15_noon_CET)
     = ''2024-03-01 00:00:00 +0100 CET''"
  "form_date_text march_first_expense = ''2024-03-01 00:00:00 +0000 UTC''"
  "form_date_text month_start_expense = ''2024-02-29 23:00:00 +0000 UTC''"
  by code_simp+

text \<open>
  Claim C5 states that \<open>ListExpenses\<close> returns exactly the expenses dated at or after the
  start of the current month in the server's zone, latest first. On instants the query does
  that (\<open>DB_ListExpenses_on_instants\<close>). The program compares the stored text of the dates
  with the text of \<open>startOfMonth\<close>, which is in the server's zone, while the dates that the
  create handler stores are texts in UTC. On a server one hour east of UTC, on 2024-03-15 at
  noon, the month starts at 2024-02-29 23:00:00 UTC; an expense dated that instant and one
  dated an hour later, both stored by the create handler, are in the month on instants, and
  SQLite returns neither.
\<close>

theorem sqlite_ListExpenses_drops_month_start:
  "e_Date month_start_expense = startOfMonth (offset CET_zone) march_15_noon_CET
   \<and> startOfMonth (offset CET_zone) march_15_noon_CET \<le> e_Date march_first_expense
   \<and> DB_ListExpenses None (offset CET_zone) march_15_noon_CET
         [march_first_expense, month_start_expense]
       = Inr [march_first_expense, month_start_expense]
   \<and> sqlite_ListExpenses form_date_text None CET_zone march_15_noon_CET
         [march_first_expense, month_start_expense]
       = Inr []"
proof -
  have later: "e_Date month_start_expense < e_Date march_first_expense"
    by code_simp
  have a: "DB_ListExpenses None (offset CET_zone) march_15_noon_CET
         [march_first_expense, month_start_expense]
       = Inr [march_first_expense, month_start_expense]"
    using later example_dates
    by (simp add: DB_ListExpenses_def order_by_desc_def)
       (simp add: march_first_expense_def month_start_expense_def)
  have b: "sqlite_ListExpenses form_date_text None CET_zone march_15_noon_CET
         [march_first_expense, month_start_expense]
       = Inr []"
    by (simp add: sqlite_ListExpenses_def example_texts order_by_desc_def)
  from example_dates a b show ?thesis by (intro conjI)
qed


section \<open>The adjacent months of the month view\<close>

lemma abs_day_of_Date_midnight:
  assumes "1 \<le> m" and "m \<le> 12"
  shows "abs_day UTC (Date y m d 0 0 0 0 UTC) =
         days_before_year y + days_before_month y m + (d - 1)"
proof -
  from assms have m: "(m - 1) div 12 = 0" "(m - 1) mod 12 = m - 1"
    by simp_all
  show ?thesis
    by (simp add: Date_def abs_day_def local_seconds_def UTC_def Let_def m)
qed

lemma civil_of_Date_midnight:
  assumes "1 \<le> m" and "m \<le> 12" and "1 \<le> d" and "d \<le> daysIn m y"
  shows "Year UTC (Date y m d 0 0 0 0 UTC) = y"
    and "Month UTC (Date y m d 0 0 0 0 UTC) = m"
    and "Day UTC (Date y m d 0 0 0 0 UTC) = d"
proof -
  define t where "t = Date y m d 0 0 0 0 UTC"
  define k where "k = days_before_month y m + (d - 1)"
  have z: "abs_day UTC t = days_before_year y + k"
    unfolding t_def k_def by (simp add: abs_day_of_Date_midnight [OF assms(1,2)])
  have k0: "days_before_month y m \<le> k"
    unfolding k_def using assms(3) by linarith
  have k1: "k < days_before_month y (m + 1)"
    unfolding k_def using assms(4) by (simp add: days_before_month_step [OF assms(1,2)])
  have "0 \<le> days_before_month y m"
    using assms(1,2) by (intro days_before_month_bounds) simp_all
  with k0 have lo: "days_before_year y \<le> abs_day UTC t"
    by (simp add: z)
  have "days_before_month y (m + 1) \<le> (if isLeap y then 366 else 365)"
    using assms(1,2) by (intro days_before_month_bounds) simp_all
  with k1 have hi: "abs_day UTC t < days_before_year (y + 1)"
    by (simp add: z days_before_year_step split: if_splits)
  have yr: "Year UTC t = y"
    unfolding Year_def using lo hi by (rule year_of_days_unique)
  have yd: "YearDay0 UTC t = k"
    by (simp add: YearDay0_def yr z)
  have mo: "Month UTC t = m"
    unfolding Month_def yr yd using assms(1,2) k0 k1 by (rule month_of_yday_unique)
  show "Year UTC (Date y m d 0 0 0 0 UTC) = y"
    using yr by (simp only: t_def)
  show "Month UTC (Date y m d 0 0 0 0 UTC) = m"
    using mo by (simp only: t_def)
  show "Day UTC (Date y m d 0 0 0 0 UTC) = d"
    unfolding t_def [symmetric] by (simp add: Day_def yr yd mo k_def)
qed

lemma Clock_of_Date_midnight: "Clock UTC (Date y m d 0 0 0 0 UTC) = (0, 0, 0)"
  by (simp add: Clock_def Date_def local_seconds_def UTC_def Let_def)

lemma Nanosecond_of_Date_midnight: "Nanosecond (Date y m d 0 0 0 0 UTC) = 0"
  by (simp add: Nanosecond_def Date_def Let_def)

lemma AddDate_months_from_first:
  assumes "1 \<le> m" and "m \<le> 12"
  shows "AddDate UTC (Date y m 1 0 0 0 0 UTC) 0 n 0 = Date y (m + n) 1 0 0 0 0 UTC"
proof -
  have d: "1 \<le> daysIn m y"
    using daysIn_ge_28 [of m y] by linarith
  show ?thesis
    by (simp add: AddDate_def Clock_of_Date_midnight Nanosecond_of_Date_midnight
          civil_of_Date_midnight [OF assms _ d])
qed

lemma previous_month:
  assumes "1 \<le> m" and "m \<le> 12"
  shows "Year UTC (AddDate UTC (Date y m 1 0 0 0 0 UTC) 0 (- 1) 0) = (if m = 1 then y - 1 else y)"
    and "Month UTC (AddDate UTC (Date y m 1 0 0 0 0 UTC) 0 (- 1) 0) = (if m = 1 then 12 else m - 1)"
proof -
  have d: "1 \<le> daysIn m' y'" for m' y'
    using daysIn_ge_28 [of m' y'] by linarith
  have t: "AddDate UTC (Date y m 1 0 0 0 0 UTC) 0 (- 1) 0 =
      (if m = 1 then Date (y - 1) 12 1 0 0 0 0 UTC else Date y (m - 1) 1 0 0 0 0 UTC)"
    by (simp add: AddDate_months_from_first [OF assms]) (simp add: Date_def Let_def)
  show "Year UTC (AddDate UTC (Date y m 1 0 0 0 0 UTC) 0 (- 1) 0) = (if m = 1 then y - 1 else y)"
    using assms by (simp add: t civil_of_Date_midnight d)
  show "Month UTC (AddDate UTC (Date y m 1 0 0 0 0 UTC) 0 (- 1) 0) = (if m = 1 then 12 else m - 1)"
    using assms by (simp add: t civil_of_Date_midnight d)
qed

lemma next_month:
  assumes "1 \<le> m" and "m \<le> 12"
  shows "Year UTC (AddDate UTC (Date y m 1 0 0 0 0 UTC) 0 1 0) = (if m = 12 then y + 1 else y)"
    and "Month UTC (AddDate UTC (Date y m 1 0 0 0 0 UTC) 0 1 0) = (if m = 12 then 1 else m + 1)"
proof -
  have d: "1 \<le> daysIn m' y'" for m' y'
    using daysIn_ge_28 [of m' y'] by linarith
  have t: "AddDate UTC (Date y m 1 0 0 0 0 UTC) 0 1 0 =
      (if m = 12 then Date (y + 1) 1 1 0 0 0 0 UTC else Date y (m + 1) 1 0 0 0 0 UTC)"
    by (simp add: AddDate_months_from_first [OF assms]) (simp add: Date_def Let_def)
  show "Year UTC (AddDate UTC (Date y m 1 0 0 0 0 UTC) 0 1 0) = (if m = 12 then y + 1 else y)"
    using assms by (simp add: t civil_of_Date_midnight d)
  show "Month UTC (AddDate UTC (Date y m 1 0 0 0 0 UTC) 0 1 0) = (if m = 12 then 1 else m + 1)"
    using assms by (simp add: t civil_of_Date_midnight d)
qed

lemma buildMonthView_navigation:
  assumes "snd (GetCategoryTotalsByMonth db year month) = None"
    and "snd (GetExpensesByMonth db year month) = None"
    and "1 \<le> month" and "month \<le> 12"
  shows "PrevYear (buildMonthView db year month loc now) = (if month = 1 then year - 1 else year)"
    and "PrevMonth (buildMonthView db year month loc now) = (if month = 1 then 12 else month - 1)"
    and "NextYear (buildMonthView db year month loc now) = (if month = 12 then year + 1 else year)"
    and "NextMonth (buildMonthView db year month loc now) = (if month = 12 then 1 else month + 1)"
  using assms(1,2)
  by (cases "GetCategoryTotalsByMonth db year month"; cases "GetExpensesByMonth db year month";
      simp add: buildMonthView_def Let_def previous_month [OF assms(3,4)] next_month [OF assms(3,4)])+

end
